theory Spec2Isabelle
  imports Main
begin

section \<open>The AppForge workflow state engine (appforge_mcp_server.py)\<close>

text \<open>
  The engine keeps its state in SQLite tables and runs every operation inside one
  transaction (\<^verbatim>\<open>AppForgeDB.get_connection\<close>).  The model is a record of tables, each
  a list of rows in rowid order, and every operation takes the database and returns the
  database it leaves behind.

  Conventions of the model:
  \<^item> a Python exception is a value of type \<open>exn\<close>; an operation that can raise returns
    \<open>exn + _\<close>, and \<open>get_connection\<close> turns \<open>Inl\<close> into a rollback;
  \<^item> a returned dictionary \<^verbatim>\<open>{"success": False, "error": msg}\<close> is \<open>Failure msg\<close>, a
    dictionary with \<^verbatim>\<open>"success": True\<close> is \<open>Success\<close> of a record of its other keys.  The
    \<^verbatim>\<open>"message"\<close> key, a display string built from the other keys, is left out;
  \<^item> \<^verbatim>\<open>datetime.now()\<close> and SQLite's \<^verbatim>\<open>CURRENT_TIMESTAMP\<close> are the parameter \<open>now\<close> of
    the operation;
  \<^item> text that is stored as JSON (\<^verbatim>\<open>json.dumps\<close>) is kept as the value that was
    serialised; \<^verbatim>\<open>dependencies.depends_on\<close>, which only the seed writes, is the list
    that \<^verbatim>\<open>json.loads\<close> returns for it;
  \<^item> a \<open>char\<close> is a code point below 256;
  \<^item> an integer that is bound to a statement must be in SQLite's 64-bit range
    (\<open>sqlite_int\<close>), or \<^verbatim>\<open>sqlite3\<close> raises \<^verbatim>\<open>OverflowError\<close>.  The integer parsed
    from a gate name is checked in the model; the ids passed in by the caller are taken
    to be in range, and a statement about every id says so with \<open>sqlite_int\<close>;
  \<^item> SQLite does not enforce foreign keys unless asked to, and the code never asks;
  \<^item> a \<^verbatim>\<open>SELECT\<close> without \<^verbatim>\<open>ORDER BY\<close> reads the table in rowid order;
  \<^item> the \<^verbatim>\<open>artifacts\<close> table, which none of the operations below touches, is left out.
\<close>

subsection \<open>Values\<close>

type_synonym timestamp = nat

datatype json =
    JNull
  | JBool bool
  | JInt int
  | JStr string
  | JList "json list"
  | JObj "(string \<times> json) list"

datatype exn =
    ValueError string
  | IntegrityError string
  | OverflowError

datatype 'a reply = Failure string | Success 'a

subsection \<open>Tables (\<^verbatim>\<open>AppForgeDB.init_schema\<close>)\<close>

datatype project_status = Active | Paused | Completed | ProjectFailed

record project =
  p_id :: int
  p_name :: string
  p_description :: string
  p_tech_stack :: string
  p_current_phase :: int
  p_status :: project_status
  p_created_at :: timestamp
  p_updated_at :: timestamp

datatype phase_status = PhPending | PhInProgress | PhComplete | PhBlocked

record phase =
  ph_id :: int
  ph_project_id :: int
  ph_phase_number :: int
  ph_phase_name :: string
  ph_status :: phase_status
  ph_started_at :: "timestamp option"
  ph_completed_at :: "timestamp option"

datatype agent_status = AgPending | AgInProgress | AgComplete | AgFailed

record agent =
  ag_id :: int
  ag_project_id :: int
  ag_agent_name :: string
  ag_phase_number :: int
  ag_status :: agent_status
  ag_output_artifacts :: "json option"
  ag_error_message :: "string option"
  ag_started_at :: "timestamp option"
  ag_completed_at :: "timestamp option"

datatype priority = HIGH | MEDIUM | LOW

datatype feature_status = FtPending | FtInProgress | FtComplete | FtFailed | FtSkipped

text \<open>
  \<^verbatim>\<open>features.priority\<close> has a default and a \<^verbatim>\<open>CHECK\<close> but no \<^verbatim>\<open>NOT NULL\<close>, and a
  \<^verbatim>\<open>CHECK\<close> lets NULL through: the column is an option.
\<close>

record feature =
  ft_id :: int
  ft_project_id :: int
  ft_feature_name :: string
  ft_description :: "string option"
  ft_priority :: "priority option"
  ft_status :: feature_status
  ft_retry_count :: int
  ft_max_retries :: int
  ft_assigned_iteration :: "int option"
  ft_created_at :: timestamp
  ft_started_at :: "timestamp option"
  ft_completed_at :: "timestamp option"

datatype gate_type = MustApprove | OptionalReview | AutoProceed

datatype gate_status = GPending | GApproved | GRejected

record gate =
  g_id :: int
  g_project_id :: int
  g_gate_name :: string
  g_gate_type :: gate_type
  g_status :: gate_status
  g_artifacts :: "string list"
  g_user_feedback :: "string option"
  g_requested_at :: timestamp
  g_resolved_at :: "timestamp option"

record audit =
  au_id :: int
  au_project_id :: int
  au_event_type :: string
  au_agent_name :: "string option"
  au_phase_number :: "int option"
  au_details :: json
  au_timestamp :: timestamp

record dependency =
  d_id :: int
  d_agent_name :: string
  d_depends_on :: "string list"
  d_phase_number :: int

record db =
  projects :: "project list"
  phases :: "phase list"
  agents :: "agent list"
  features :: "feature list"
  approval_gates :: "gate list"
  audit_log :: "audit list"
  dependencies :: "dependency list"

subsection \<open>SQLite and Python primitives\<close>

text \<open>\<^verbatim>\<open>INTEGER PRIMARY KEY AUTOINCREMENT\<close>: one more than the largest rowid; no row is ever deleted.\<close>

definition next_id :: "int list \<Rightarrow> int" where
  "next_id ids = foldr max ids 0 + 1"

text \<open>The range of an SQLite \<^verbatim>\<open>INTEGER\<close>; binding a Python int outside it raises \<^verbatim>\<open>OverflowError\<close>.\<close>

definition sqlite_int :: "int \<Rightarrow> bool" where
  "sqlite_int n = (- (2 ^ 63) \<le> n \<and> n < 2 ^ 63)"

text \<open>\<^verbatim>\<open>cursor.fetchone()\<close>: the first row of the result, or \<^verbatim>\<open>None\<close>.\<close>

definition fetchone :: "'a list \<Rightarrow> 'a option" where
  "fetchone rows = (case rows of [] \<Rightarrow> None | r # _ \<Rightarrow> Some r)"

text \<open>
  \<^verbatim>\<open>ORDER BY\<close> with the comparison \<open>le\<close>: insertion sort that keeps the table order of
  ties.  Both \<^verbatim>\<open>ORDER BY\<close> clauses of the code end in a column that is unique in its
  table, so ties do not occur there.
\<close>

fun order_insert :: "('a \<Rightarrow> 'a \<Rightarrow> bool) \<Rightarrow> 'a \<Rightarrow> 'a list \<Rightarrow> 'a list" where
  "order_insert le x [] = [x]"
| "order_insert le x (y # ys) = (if le x y then x # y # ys else y # order_insert le x ys)"

definition order_by :: "('a \<Rightarrow> 'a \<Rightarrow> bool) \<Rightarrow> 'a list \<Rightarrow> 'a list" where
  "order_by le rows = foldr (order_insert le) rows []"

text \<open>SQLite's \<^verbatim>\<open>BINARY\<close> collation on text: code points compared one by one, a prefix first.\<close>

fun text_le :: "string \<Rightarrow> string \<Rightarrow> bool" where
  "text_le [] t = True"
| "text_le (a # s) [] = False"
| "text_le (a # s) (b # t) =
     ((of_char a :: nat) < of_char b \<or> ((of_char a :: nat) = of_char b \<and> text_le s t))"

text \<open>\<^verbatim>\<open>str(n)\<close> and \<^verbatim>\<open>f"{n}"\<close> for an int.\<close>

definition digit_char :: "nat \<Rightarrow> char" where
  "digit_char d = ''0123456789'' ! d"

fun str_nat :: "nat \<Rightarrow> string" where
  "str_nat n = (if n < 10 then [digit_char n] else str_nat (n div 10) @ [digit_char (n mod 10)])"

declare str_nat.simps [simp del]

definition str_int :: "int \<Rightarrow> string" where
  "str_int i = (if i < 0 then CHR ''-'' # str_nat (nat (- i)) else str_nat (nat i))"

text \<open>\<^verbatim>\<open>needle in s\<close> on strings.\<close>

definition starts_with :: "string \<Rightarrow> string \<Rightarrow> bool" where
  "starts_with needle s = (take (length needle) s = needle)"

fun str_contains :: "string \<Rightarrow> string \<Rightarrow> bool" where
  "str_contains needle [] = (needle = [])"
| "str_contains needle (c # cs) = (starts_with needle (c # cs) \<or> str_contains needle cs)"

text \<open>
  \<^verbatim>\<open>str.isspace\<close> below code point 256: TAB, LF, VT, FF, CR, the separators 28 to 31,
  the space, NEL (133) and the no-break space (160).
\<close>

definition isspace :: "char \<Rightarrow> bool" where
  "isspace c = ((of_char c :: nat) \<in> {9, 10, 11, 12, 13, 28, 29, 30, 31, 32, 133, 160})"

text \<open>\<^verbatim>\<open>s.split()\<close>: the maximal runs of characters that are not whitespace.\<close>

fun split_from :: "string \<Rightarrow> string \<Rightarrow> string list" where
  "split_from cur [] = (if cur = [] then [] else [cur])"
| "split_from cur (c # cs) =
     (if isspace c then (if cur = [] then split_from [] cs else cur # split_from [] cs)
      else split_from (cur @ [c]) cs)"

definition py_split :: "string \<Rightarrow> string list" where
  "py_split s = split_from [] s"

text \<open>
  \<^verbatim>\<open>int(s)\<close> in base 10: surrounding whitespace is stripped, then an optional sign and
  decimal digits, where single underscores may stand between digits.  Anything else is a
  \<^verbatim>\<open>ValueError\<close> naming the literal.  (The interpreter's limit on the number of digits
  is not modelled.)
\<close>

definition digit_val :: "char \<Rightarrow> nat option" where
  "digit_val c =
     (if (48::nat) \<le> of_char c \<and> (of_char c :: nat) \<le> 57 then Some (of_char c - 48) else None)"

text \<open>\<open>digits_from acc s\<close> reads \<open>s\<close> after a digit has been read, \<open>acc\<close> being the value so far.\<close>

fun digits_from :: "nat \<Rightarrow> string \<Rightarrow> nat option" where
  "digits_from acc [] = Some acc"
| "digits_from acc [c] = (case digit_val c of None \<Rightarrow> None | Some d \<Rightarrow> Some (10 * acc + d))"
| "digits_from acc (c # c' # cs) =
     (if c = CHR ''_'' then
        (case digit_val c' of None \<Rightarrow> None | Some d \<Rightarrow> digits_from (10 * acc + d) cs)
      else
        (case digit_val c of None \<Rightarrow> None | Some d \<Rightarrow> digits_from (10 * acc + d) (c' # cs)))"

definition parse_digits :: "string \<Rightarrow> nat option" where
  "parse_digits s =
     (case s of [] \<Rightarrow> None
      | c # cs \<Rightarrow> (case digit_val c of None \<Rightarrow> None | Some d \<Rightarrow> digits_from d cs))"

definition py_strip :: "string \<Rightarrow> string" where
  "py_strip s = rev (dropWhile isspace (rev (dropWhile isspace s)))"

definition py_int :: "string \<Rightarrow> exn + int" where
  "py_int s =
     (let t = py_strip s;
          (neg, body) = (case t of
                           c # cs \<Rightarrow> if c = CHR ''-'' then (True, cs)
                                     else if c = CHR ''+'' then (False, cs) else (False, t)
                         | [] \<Rightarrow> (False, t))
      in case parse_digits body of
           None \<Rightarrow> Inl (ValueError s)
         | Some n \<Rightarrow> Inr (if neg then - int n else int n))"

subsection \<open>Transactions and the audit log\<close>

text \<open>
  \<^verbatim>\<open>get_connection\<close>: the body runs on the connection; a normal return commits what it
  wrote, an exception rolls everything back and is raised again.
\<close>

definition get_connection :: "(db \<Rightarrow> exn + ('a \<times> db)) \<Rightarrow> db \<Rightarrow> (exn + 'a) \<times> db" where
  "get_connection body conn =
     (case body conn of
        Inl e \<Rightarrow> (Inl e, conn)
      | Inr (result, conn') \<Rightarrow> (Inr result, conn'))"

definition log_event ::
  "db \<Rightarrow> timestamp \<Rightarrow> int \<Rightarrow> string \<Rightarrow> json \<Rightarrow> string option \<Rightarrow> int option \<Rightarrow> db" where
  "log_event conn now project_id event_type details agent_name phase_number =
     conn\<lparr>audit_log := audit_log conn @
       [\<lparr>au_id = next_id (map au_id (audit_log conn)),
         au_project_id = project_id,
         au_event_type = event_type,
         au_agent_name = agent_name,
         au_phase_number = phase_number,
         au_details = details,
         au_timestamp = now\<rparr>]\<rparr>"

subsection \<open>The dependency graph (\<^verbatim>\<open>_initialize_dependency_graph\<close>)\<close>

definition seed_rows :: "(string \<times> string list \<times> int) list" where
  "seed_rows =
     [(''input-agent'', [], 0),
      (''requirements-analyst'', [''input-agent''], 1),
      (''ui-ux-designer'', [''input-agent''], 1),
      (''database-architect'', [''requirements-analyst'', ''ui-ux-designer''], 2),
      (''api-designer'', [''requirements-analyst'', ''ui-ux-designer''], 2),
      (''integration-specialist'', [''requirements-analyst'', ''ui-ux-designer''], 2),
      (''backend-developer'',
         [''database-architect'', ''api-designer'', ''integration-specialist''], 3),
      (''frontend-developer'', [''backend-developer'', ''ui-ux-designer''], 3),
      (''backend-developer-feature'', [''backend-developer''], 4),
      (''frontend-developer-feature'', [''backend-developer-feature''], 4),
      (''qa-engineer-feature'',
         [''backend-developer-feature'', ''frontend-developer-feature''], 4),
      (''qa-engineer'', [''qa-engineer-feature''], 5),
      (''security-auditor'', [''qa-engineer-feature''], 5),
      (''devops-engineer'', [''qa-engineer-feature''], 5),
      (''devops-engineer-staging'',
         [''qa-engineer'', ''security-auditor'', ''devops-engineer''], 6),
      (''devops-engineer-production'', [''devops-engineer-staging''], 6),
      (''devops-engineer-appstore'', [''devops-engineer-production''], 6)]"

fun insert_dependencies :: "dependency list \<Rightarrow> (string \<times> string list \<times> int) list \<Rightarrow> dependency list" where
  "insert_dependencies table [] = table"
| "insert_dependencies table ((agent_name, depends_on, phase_number) # rest) =
     insert_dependencies
       (table @ [\<lparr>d_id = next_id (map d_id table), d_agent_name = agent_name,
                  d_depends_on = depends_on, d_phase_number = phase_number\<rparr>]) rest"

definition initialize_dependency_graph :: "db \<Rightarrow> db" where
  "initialize_dependency_graph conn =
     conn\<lparr>dependencies := insert_dependencies (dependencies conn) seed_rows\<rparr>"

text \<open>The tables exist and are empty on a new file; the graph is seeded when its table is empty.\<close>

definition empty_db :: db where
  "empty_db = \<lparr>projects = [], phases = [], agents = [], features = [], approval_gates = [],
               audit_log = [], dependencies = []\<rparr>"

definition init_schema :: "db \<Rightarrow> db" where
  "init_schema conn =
     (if length (dependencies conn) = 0 then initialize_dependency_graph conn else conn)"

subsection \<open>Agent readiness (\<^verbatim>\<open>can_start_agent\<close>)\<close>

record can_start_info =
  cs_can_start :: bool
  cs_agent_name :: string
  cs_required_phase :: int
  cs_current_phase :: int
  cs_dependencies :: "string list"
  cs_missing_dependencies :: "string list"

definition phase_mismatch :: "int \<Rightarrow> int \<Rightarrow> string" where
  "phase_mismatch current_phase required_phase =
     ''Project is in Phase '' @ str_int current_phase @
     '', but agent requires Phase '' @ str_int required_phase"

text \<open>The operation only reads; the transaction around it commits nothing.\<close>

definition can_start_agent :: "db \<Rightarrow> int \<Rightarrow> string \<Rightarrow> can_start_info reply" where
  "can_start_agent conn project_id agent_name =
     (case fetchone (filter (\<lambda>d. d_agent_name d = agent_name) (dependencies conn)) of
        None \<Rightarrow> Failure (''Unknown agent: '' @ agent_name)
      | Some dep_row \<Rightarrow>
         (let deps = d_depends_on dep_row;
              required_phase = d_phase_number dep_row;
              completed_names =
                map ag_agent_name
                  (filter (\<lambda>a. ag_project_id a = project_id \<and> ag_status a = AgComplete)
                     (agents conn));
              missing = filter (\<lambda>dep. dep \<notin> set completed_names) deps;
              can_start = (length missing = 0);
              current_phase =
                (case fetchone (filter (\<lambda>p. p_id p = project_id) (projects conn)) of
                   Some project \<Rightarrow> p_current_phase project
                 | None \<Rightarrow> 0);
              too_early = (can_start \<and> current_phase < required_phase)
          in Success
               \<lparr>cs_can_start = (if too_early then False else can_start),
                cs_agent_name = agent_name,
                cs_required_phase = required_phase,
                cs_current_phase = current_phase,
                cs_dependencies = deps,
                cs_missing_dependencies =
                  (if too_early then missing @ [phase_mismatch current_phase required_phase]
                   else missing)\<rparr>))"

subsection \<open>Agent completion and failure\<close>

text \<open>
  An \<^verbatim>\<open>INSERT INTO agents\<close>.  A column the statement does not list gets its default;
  \<^verbatim>\<open>phase_number\<close> is \<^verbatim>\<open>NOT NULL\<close> and has none, so leaving it out (\<open>None\<close>) is an
  \<^verbatim>\<open>IntegrityError\<close>.
\<close>

definition insert_agent ::
  "db \<Rightarrow> int \<Rightarrow> string \<Rightarrow> int option \<Rightarrow> agent_status \<Rightarrow> json option \<Rightarrow> string option \<Rightarrow>
   timestamp option \<Rightarrow> exn + db" where
  "insert_agent conn project_id agent_name phase_number status output_artifacts error_message
       completed_at =
     (case phase_number of
        None \<Rightarrow> Inl (IntegrityError ''NOT NULL constraint failed: agents.phase_number'')
      | Some pn \<Rightarrow>
          Inr (conn\<lparr>agents := agents conn @
                 [\<lparr>ag_id = next_id (map ag_id (agents conn)),
                   ag_project_id = project_id,
                   ag_agent_name = agent_name,
                   ag_phase_number = pn,
                   ag_status = status,
                   ag_output_artifacts = output_artifacts,
                   ag_error_message = error_message,
                   ag_started_at = None,
                   ag_completed_at = completed_at\<rparr>]\<rparr>))"

definition touch_project :: "db \<Rightarrow> timestamp \<Rightarrow> int \<Rightarrow> db" where
  "touch_project conn now project_id =
     conn\<lparr>projects :=
       map (\<lambda>p. if p_id p = project_id then p\<lparr>p_updated_at := now\<rparr> else p) (projects conn)\<rparr>"

text \<open>The reply carries the key \<^verbatim>\<open>"phase"\<close>.\<close>

definition mark_agent_complete_body ::
  "timestamp \<Rightarrow> int \<Rightarrow> string \<Rightarrow> json \<Rightarrow> db \<Rightarrow> exn + (int reply \<times> db)" where
  "mark_agent_complete_body now project_id agent_name artifacts conn =
     (case fetchone (filter (\<lambda>d. d_agent_name d = agent_name) (dependencies conn)) of
        None \<Rightarrow> Inr (Failure (''Unknown agent: '' @ agent_name), conn)
      | Some dep_row \<Rightarrow>
         (let phase_number = d_phase_number dep_row;
              existing =
                fetchone
                  (filter (\<lambda>a. ag_project_id a = project_id \<and> ag_agent_name a = agent_name \<and>
                                ag_status a \<noteq> AgComplete) (agents conn));
              written =
                (case existing of
                   Some row \<Rightarrow>
                     Inr (conn\<lparr>agents :=
                            map (\<lambda>a. if ag_id a = ag_id row
                                      then a\<lparr>ag_status := AgComplete,
                                             ag_output_artifacts := Some artifacts,
                                             ag_completed_at := Some now\<rparr>
                                      else a) (agents conn)\<rparr>)
                 | None \<Rightarrow>
                     insert_agent conn project_id agent_name (Some phase_number) AgComplete
                       (Some artifacts) None (Some now))
          in case written of
               Inl e \<Rightarrow> Inl e
             | Inr conn1 \<Rightarrow>
                 Inr (Success phase_number,
                      log_event (touch_project conn1 now project_id) now project_id
                        ''agent_complete''
                        (JObj [(''agent_name'', JStr agent_name),
                               (''phase_number'', JInt phase_number),
                               (''artifacts'', artifacts)])
                        (Some agent_name) (Some phase_number))))"

definition mark_agent_complete ::
  "db \<Rightarrow> timestamp \<Rightarrow> int \<Rightarrow> string \<Rightarrow> json \<Rightarrow> (exn + int reply) \<times> db" where
  "mark_agent_complete conn now project_id agent_name artifacts =
     get_connection (mark_agent_complete_body now project_id agent_name artifacts) conn"

text \<open>
  \<^verbatim>\<open>mark_agent_failed\<close> inserts the columns project_id, agent_name, status, error_message
  and completed_at: \<^verbatim>\<open>phase_number\<close> is not among them.
\<close>

definition mark_agent_failed_body ::
  "timestamp \<Rightarrow> int \<Rightarrow> string \<Rightarrow> string \<Rightarrow> db \<Rightarrow> exn + (unit reply \<times> db)" where
  "mark_agent_failed_body now project_id agent_name error conn =
     (case insert_agent conn project_id agent_name None AgFailed None (Some error) (Some now) of
        Inl e \<Rightarrow> Inl e
      | Inr conn1 \<Rightarrow>
          Inr (Success (),
               log_event conn1 now project_id ''agent_failed''
                 (JObj [(''agent_name'', JStr agent_name), (''error'', JStr error)])
                 (Some agent_name) None))"

definition mark_agent_failed ::
  "db \<Rightarrow> timestamp \<Rightarrow> int \<Rightarrow> string \<Rightarrow> string \<Rightarrow> (exn + unit reply) \<times> db" where
  "mark_agent_failed conn now project_id agent_name error =
     get_connection (mark_agent_failed_body now project_id agent_name error) conn"

subsection \<open>Next agents (\<^verbatim>\<open>get_next_agents\<close>)\<close>

record ready_agent =
  ra_name :: string
  ra_phase :: int

record blocked_agent =
  ba_name :: string
  ba_phase :: int
  ba_missing :: "string list"

record next_agents =
  ready_agents :: "ready_agent list"
  blocked_agents :: "blocked_agent list"

text \<open>\<^verbatim>\<open>ORDER BY phase_number, agent_name\<close>.\<close>

definition dependency_le :: "dependency \<Rightarrow> dependency \<Rightarrow> bool" where
  "dependency_le a b =
     (d_phase_number a < d_phase_number b \<or>
      (d_phase_number a = d_phase_number b \<and> text_le (d_agent_name a) (d_agent_name b)))"

text \<open>
  The loop over the agent names, with the two lists it appends to.  \<^verbatim>\<open>check.get(key)\<close>
  on a failure dictionary is \<^verbatim>\<open>None\<close>, so neither branch is taken for it.
\<close>

fun next_agents_loop ::
  "db \<Rightarrow> int \<Rightarrow> string list \<Rightarrow> ready_agent list \<Rightarrow> blocked_agent list \<Rightarrow>
   ready_agent list \<times> blocked_agent list" where
  "next_agents_loop conn project_id [] ready blocked = (ready, blocked)"
| "next_agents_loop conn project_id (agent_name # rest) ready blocked =
     (case can_start_agent conn project_id agent_name of
        Failure err \<Rightarrow> next_agents_loop conn project_id rest ready blocked
      | Success check \<Rightarrow>
          if cs_can_start check then
            (case fetchone
                    (filter (\<lambda>a. ag_project_id a = project_id \<and> ag_agent_name a = agent_name \<and>
                                  ag_status a = AgComplete) (agents conn)) of
               None \<Rightarrow>
                 next_agents_loop conn project_id rest
                   (ready @ [\<lparr>ra_name = agent_name, ra_phase = cs_required_phase check\<rparr>]) blocked
             | Some completed \<Rightarrow> next_agents_loop conn project_id rest ready blocked)
          else if cs_missing_dependencies check \<noteq> [] then
            next_agents_loop conn project_id rest ready
              (blocked @ [\<lparr>ba_name = agent_name, ba_phase = cs_required_phase check,
                           ba_missing = cs_missing_dependencies check\<rparr>])
          else next_agents_loop conn project_id rest ready blocked)"

definition get_next_agents :: "db \<Rightarrow> int \<Rightarrow> next_agents reply" where
  "get_next_agents conn project_id =
     (let all_agents = map d_agent_name (order_by dependency_le (dependencies conn));
          (ready, blocked) = next_agents_loop conn project_id all_agents [] []
      in Success \<lparr>ready_agents = ready, blocked_agents = take 5 blocked\<rparr>)"

subsection \<open>Approval gates (\<^verbatim>\<open>record_approval\<close>)\<close>

text \<open>
  \<^verbatim>\<open>int(gate_name.split()[1]) if len(gate_name.split()) > 1 else None\<close>
\<close>

definition gate_number_of :: "string \<Rightarrow> exn + int option" where
  "gate_number_of gate_name =
     (if length (py_split gate_name) > 1 then
        (case py_int (py_split gate_name ! 1) of
           Inl e \<Rightarrow> Inl e
         | Inr n \<Rightarrow> Inr (Some n))
      else Inr None)"

definition resolve_gates :: "db \<Rightarrow> timestamp \<Rightarrow> int \<Rightarrow> string \<Rightarrow> gate_status \<Rightarrow> string option \<Rightarrow> db" where
  "resolve_gates conn now project_id gate_name status feedback =
     conn\<lparr>approval_gates :=
       map (\<lambda>g. if g_project_id g = project_id \<and> g_gate_name g = gate_name \<and> g_status g = GPending
                 then g\<lparr>g_status := status, g_user_feedback := feedback, g_resolved_at := Some now\<rparr>
                 else g) (approval_gates conn)\<rparr>"

definition advance_phase :: "db \<Rightarrow> timestamp \<Rightarrow> int \<Rightarrow> int \<Rightarrow> db" where
  "advance_phase conn now project_id next_phase =
     conn\<lparr>projects :=
            map (\<lambda>p. if p_id p = project_id
                      then p\<lparr>p_current_phase := next_phase, p_updated_at := now\<rparr> else p)
              (projects conn),
          phases :=
            map (\<lambda>ph. if ph_project_id ph = project_id \<and> ph_phase_number ph = next_phase
                       then ph\<lparr>ph_status := PhInProgress, ph_started_at := Some now\<rparr> else ph)
              (phases conn)\<rparr>"

definition feedback_json :: "string option \<Rightarrow> json" where
  "feedback_json feedback = (case feedback of None \<Rightarrow> JNull | Some text \<Rightarrow> JStr text)"

text \<open>
  The reply carries the key \<^verbatim>\<open>"approved"\<close>.  \<^verbatim>\<open>if gate_number:\<close> is false for \<^verbatim>\<open>None\<close>
  and for 0.
\<close>

definition record_approval_body ::
  "timestamp \<Rightarrow> int \<Rightarrow> string \<Rightarrow> bool \<Rightarrow> string option \<Rightarrow> db \<Rightarrow> exn + (bool reply \<times> db)" where
  "record_approval_body now project_id gate_name approved feedback conn =
     (let status = (if approved then GApproved else GRejected);
          conn1 = resolve_gates conn now project_id gate_name status feedback;
          advanced =
            (if approved \<and> str_contains ''Gate'' gate_name then
               (case gate_number_of gate_name of
                  Inl e \<Rightarrow> Inl e
                | Inr None \<Rightarrow> Inr conn1
                | Inr (Some gate_number) \<Rightarrow>
                    if gate_number \<noteq> 0 then
                      (if sqlite_int gate_number
                       then Inr (advance_phase conn1 now project_id gate_number)
                       else Inl OverflowError)
                    else Inr conn1)
             else Inr conn1)
      in case advanced of
           Inl e \<Rightarrow> Inl e
         | Inr conn2 \<Rightarrow>
             Inr (Success approved,
                  log_event conn2 now project_id ''approval_recorded''
                    (JObj [(''gate_name'', JStr gate_name), (''approved'', JBool approved),
                           (''feedback'', feedback_json feedback)])
                    None None))"

definition record_approval ::
  "db \<Rightarrow> timestamp \<Rightarrow> int \<Rightarrow> string \<Rightarrow> bool \<Rightarrow> string option \<Rightarrow> (exn + bool reply) \<times> db" where
  "record_approval conn now project_id gate_name approved feedback =
     get_connection (record_approval_body now project_id gate_name approved feedback) conn"

subsection \<open>The feature backlog\<close>

text \<open>The \<^verbatim>\<open>CASE priority ... END\<close> of the \<^verbatim>\<open>ORDER BY\<close>: NULL when no \<^verbatim>\<open>WHEN\<close> matches.\<close>

definition priority_rank :: "priority option \<Rightarrow> int option" where
  "priority_rank p =
     (case p of
        Some HIGH \<Rightarrow> Some 1
      | Some MEDIUM \<Rightarrow> Some 2
      | Some LOW \<Rightarrow> Some 3
      | None \<Rightarrow> None)"

text \<open>Ascending order of SQLite on a nullable integer: NULL sorts before every value.\<close>

definition rank_less :: "int option \<Rightarrow> int option \<Rightarrow> bool" where
  "rank_less a b =
     (case (a, b) of
        (None, None) \<Rightarrow> False
      | (None, Some y) \<Rightarrow> True
      | (Some x, None) \<Rightarrow> False
      | (Some x, Some y) \<Rightarrow> x < y)"

text \<open>\<^verbatim>\<open>ORDER BY CASE priority ... END, id ASC\<close>.\<close>

definition feature_le :: "feature \<Rightarrow> feature \<Rightarrow> bool" where
  "feature_le f g =
     (rank_less (priority_rank (ft_priority f)) (priority_rank (ft_priority g)) \<or>
      (priority_rank (ft_priority f) = priority_rank (ft_priority g) \<and> ft_id f \<le> ft_id g))"

text \<open>
  The reply is \<open>Success None\<close> for \<^verbatim>\<open>"has_next": False\<close> and \<open>Success (Some row)\<close> for
  \<^verbatim>\<open>"has_next": True, "feature": row\<close>.
\<close>

definition get_next_feature :: "db \<Rightarrow> int \<Rightarrow> feature option reply" where
  "get_next_feature conn project_id =
     Success
       (fetchone
          (take 1
             (order_by feature_le
                (filter (\<lambda>f. ft_project_id f = project_id \<and> ft_status f = FtPending)
                   (features conn)))))"

definition has_next :: "feature option reply \<Rightarrow> bool" where
  "has_next r = (case r of Success (Some row) \<Rightarrow> True | Success None \<Rightarrow> False | Failure err \<Rightarrow> False)"

definition mark_feature_complete_body ::
  "timestamp \<Rightarrow> int \<Rightarrow> int \<Rightarrow> db \<Rightarrow> exn + (unit reply \<times> db)" where
  "mark_feature_complete_body now project_id feature_id conn =
     (let conn1 =
            conn\<lparr>features :=
              map (\<lambda>f. if ft_id f = feature_id
                        then f\<lparr>ft_status := FtComplete, ft_completed_at := Some now\<rparr> else f)
                (features conn)\<rparr>;
          feature = fetchone (filter (\<lambda>f. ft_id f = feature_id) (features conn1))
      in Inr (Success (),
              log_event conn1 now project_id ''feature_complete''
                (JObj [(''feature_id'', JInt feature_id),
                       (''feature_name'',
                          JStr (case feature of Some row \<Rightarrow> ft_feature_name row
                                | None \<Rightarrow> ''Unknown''))])
                None None))"

definition mark_feature_complete ::
  "db \<Rightarrow> timestamp \<Rightarrow> int \<Rightarrow> int \<Rightarrow> (exn + unit reply) \<times> db" where
  "mark_feature_complete conn now project_id feature_id =
     get_connection (mark_feature_complete_body now project_id feature_id) conn"

record retry_info =
  rt_retry_count :: int
  rt_retries_left :: int
  rt_max_retries_reached :: bool

definition record_feature_retry_body ::
  "timestamp \<Rightarrow> int \<Rightarrow> int \<Rightarrow> db \<Rightarrow> exn + (retry_info reply \<times> db)" where
  "record_feature_retry_body now project_id feature_id conn =
     (let conn1 =
            conn\<lparr>features :=
              map (\<lambda>f. if ft_id f = feature_id
                        then f\<lparr>ft_retry_count := ft_retry_count f + 1\<rparr> else f)
                (features conn)\<rparr>
      in case fetchone (filter (\<lambda>f. ft_id f = feature_id) (features conn1)) of
           Some feature \<Rightarrow>
             (let retries_left = ft_max_retries feature - ft_retry_count feature
              in Inr (Success \<lparr>rt_retry_count = ft_retry_count feature,
                                rt_retries_left = retries_left,
                                rt_max_retries_reached = (retries_left \<le> 0)\<rparr>,
                      log_event conn1 now project_id ''feature_retry''
                        (JObj [(''feature_id'', JInt feature_id),
                               (''feature_name'', JStr (ft_feature_name feature)),
                               (''retry_count'', JInt (ft_retry_count feature)),
                               (''retries_left'', JInt retries_left)])
                        None None))
         | None \<Rightarrow> Inr (Failure ''Feature not found'', conn1))"

definition record_feature_retry ::
  "db \<Rightarrow> timestamp \<Rightarrow> int \<Rightarrow> int \<Rightarrow> (exn + retry_info reply) \<times> db" where
  "record_feature_retry conn now project_id feature_id =
     get_connection (record_feature_retry_body now project_id feature_id) conn"

subsection \<open>The tool boundary (\<^verbatim>\<open>call_tool\<close>)\<close>

text \<open>
  \<^verbatim>\<open>call_tool\<close> routes the call and serialises the result; any exception becomes
  \<^verbatim>\<open>{"success": False, "error": str(e), "tool": name}\<close>, here \<open>ToolError e name\<close>.
\<close>

datatype 'a tool_response = ToolResult 'a | ToolError exn string

definition call_tool :: "string \<Rightarrow> (exn + 'a) \<Rightarrow> 'a tool_response" where
  "call_tool name outcome =
     (case outcome of
        Inr result \<Rightarrow> ToolResult result
      | Inl e \<Rightarrow> ToolError e name)"

subsection \<open>Queries used in the statements\<close>

definition complete_rows :: "db \<Rightarrow> int \<Rightarrow> string \<Rightarrow> agent list" where
  "complete_rows conn project_id agent_name =
     filter (\<lambda>a. ag_project_id a = project_id \<and> ag_agent_name a = agent_name \<and>
                   ag_status a = AgComplete) (agents conn)"

definition has_complete_record :: "db \<Rightarrow> int \<Rightarrow> string \<Rightarrow> bool" where
  "has_complete_record conn project_id agent_name =
     (complete_rows conn project_id agent_name \<noteq> [])"

definition open_rows :: "db \<Rightarrow> int \<Rightarrow> string \<Rightarrow> agent list" where
  "open_rows conn project_id agent_name =
     filter (\<lambda>a. ag_project_id a = project_id \<and> ag_agent_name a = agent_name \<and>
                   ag_status a \<noteq> AgComplete) (agents conn)"

definition failed_rows :: "db \<Rightarrow> int \<Rightarrow> string \<Rightarrow> agent list" where
  "failed_rows conn project_id agent_name =
     filter (\<lambda>a. ag_project_id a = project_id \<and> ag_agent_name a = agent_name \<and>
                   ag_status a = AgFailed) (agents conn)"

definition dependency_row :: "db \<Rightarrow> string \<Rightarrow> dependency option" where
  "dependency_row conn agent_name =
     fetchone (filter (\<lambda>d. d_agent_name d = agent_name) (dependencies conn))"

definition project_row :: "db \<Rightarrow> int \<Rightarrow> project option" where
  "project_row conn project_id = fetchone (filter (\<lambda>p. p_id p = project_id) (projects conn))"

definition phase_rows :: "db \<Rightarrow> int \<Rightarrow> int \<Rightarrow> phase list" where
  "phase_rows conn project_id phase_number =
     filter (\<lambda>ph. ph_project_id ph = project_id \<and> ph_phase_number ph = phase_number)
       (phases conn)"

definition pending_gates :: "db \<Rightarrow> int \<Rightarrow> string \<Rightarrow> gate list" where
  "pending_gates conn project_id gate_name =
     filter (\<lambda>g. g_project_id g = project_id \<and> g_gate_name g = gate_name \<and>
                   g_status g = GPending) (approval_gates conn)"

definition pending_features :: "db \<Rightarrow> int \<Rightarrow> feature list" where
  "pending_features conn project_id =
     filter (\<lambda>f. ft_project_id f = project_id \<and> ft_status f = FtPending) (features conn)"

definition feature_row :: "db \<Rightarrow> int \<Rightarrow> feature option" where
  "feature_row conn feature_id = fetchone (filter (\<lambda>f. ft_id f = feature_id) (features conn))"

subsection \<open>Example databases\<close>

text \<open>A new database file after \<^verbatim>\<open>AppForgeDB()\<close>.\<close>

definition seeded :: db where
  "seeded = init_schema empty_db"

text \<open>
  The database that \<^verbatim>\<open>create_project("P", "demo")\<close> leaves at time 1 on a new file: the
  project in phase 0, its seven phase rows with phase 0 in progress, one audit entry.
\<close>

definition project_created :: db where
  "project_created =
     seeded
       \<lparr>projects :=
          [\<lparr>p_id = 1, p_name = ''P'', p_description = ''demo'', p_tech_stack = ''default'',
            p_current_phase = 0, p_status = Active, p_created_at = 1, p_updated_at = 1\<rparr>],
        phases :=
          [\<lparr>ph_id = 1, ph_project_id = 1, ph_phase_number = 0, ph_phase_name = ''Input Gathering'',
            ph_status = PhInProgress, ph_started_at = Some 1, ph_completed_at = None\<rparr>,
           \<lparr>ph_id = 2, ph_project_id = 1, ph_phase_number = 1, ph_phase_name = ''Discovery'',
            ph_status = PhPending, ph_started_at = None, ph_completed_at = None\<rparr>,
           \<lparr>ph_id = 3, ph_project_id = 1, ph_phase_number = 2, ph_phase_name = ''Technical Design'',
            ph_status = PhPending, ph_started_at = None, ph_completed_at = None\<rparr>,
           \<lparr>ph_id = 4, ph_project_id = 1, ph_phase_number = 3, ph_phase_name = ''Foundation'',
            ph_status = PhPending, ph_started_at = None, ph_completed_at = None\<rparr>,
           \<lparr>ph_id = 5, ph_project_id = 1, ph_phase_number = 4,
            ph_phase_name = ''Feature Development'',
            ph_status = PhPending, ph_started_at = None, ph_completed_at = None\<rparr>,
           \<lparr>ph_id = 6, ph_project_id = 1, ph_phase_number = 5, ph_phase_name = ''Hardening'',
            ph_status = PhPending, ph_started_at = None, ph_completed_at = None\<rparr>,
           \<lparr>ph_id = 7, ph_project_id = 1, ph_phase_number = 6, ph_phase_name = ''Deployment'',
            ph_status = PhPending, ph_started_at = None, ph_completed_at = None\<rparr>],
        audit_log :=
          [\<lparr>au_id = 1, au_project_id = 1, au_event_type = ''project_created'',
            au_agent_name = None, au_phase_number = None,
            au_details = JObj [(''name'', JStr ''P''), (''description'', JStr ''demo''),
                               (''tech_stack'', JStr ''default'')],
            au_timestamp = 1\<rparr>]\<rparr>"

text \<open>\<open>project_created\<close> after \<^verbatim>\<open>mark_agent_complete(1, "input-agent", {})\<close> at time 2.\<close>

definition input_done :: db where
  "input_done = snd (mark_agent_complete project_created 2 1 ''input-agent'' (JObj []))"

text \<open>\<open>input_done\<close> after a second \<^verbatim>\<open>mark_agent_complete(1, "input-agent", {})\<close> at time 3.\<close>

definition input_done_twice :: db where
  "input_done_twice = snd (mark_agent_complete input_done 3 1 ''input-agent'' (JObj []))"

text \<open>
  \<open>project_created\<close> after \<^verbatim>\<open>mark_agent_complete(1, "requirements-analyst", {})\<close> at time
  2: the operation does not ask whether the agent could start.
\<close>

definition analyst_done_early :: db where
  "analyst_done_early =
     snd (mark_agent_complete project_created 2 1 ''requirements-analyst'' (JObj []))"

text \<open>
  A gate row as \<^verbatim>\<open>request_approval\<close> inserts it at time 3, pending, and the same gate
  after it was rejected at time 4.
\<close>

definition pending_gate :: "string \<Rightarrow> gate" where
  "pending_gate gate_name =
     \<lparr>g_id = 1, g_project_id = 1, g_gate_name = gate_name, g_gate_type = MustApprove,
      g_status = GPending, g_artifacts = [], g_user_feedback = None, g_requested_at = 3,
      g_resolved_at = None\<rparr>"

definition gate2_pending :: db where
  "gate2_pending = project_created\<lparr>approval_gates := [pending_gate ''Gate 2'']\<rparr>"

definition gate2_rejected :: db where
  "gate2_rejected =
     project_created
       \<lparr>approval_gates :=
          [(pending_gate ''Gate 2'')
             \<lparr>g_status := GRejected, g_user_feedback := Some ''no'', g_resolved_at := Some 4\<rparr>]\<rparr>"

definition feature_gate_pending :: db where
  "feature_gate_pending = project_created\<lparr>approval_gates := [pending_gate ''Feature Gate'']\<rparr>"

text \<open>
  Feature rows as \<^verbatim>\<open>add_features\<close> inserts them: project 1 owns a LOW and a HIGH
  feature, project 2 owns a MEDIUM one.
\<close>

definition new_feature :: "int \<Rightarrow> int \<Rightarrow> string \<Rightarrow> priority \<Rightarrow> feature" where
  "new_feature feature_id project_id feature_name prio =
     \<lparr>ft_id = feature_id, ft_project_id = project_id, ft_feature_name = feature_name,
      ft_description = Some [], ft_priority = Some prio, ft_status = FtPending,
      ft_retry_count = 0, ft_max_retries = 3, ft_assigned_iteration = None, ft_created_at = 5,
      ft_started_at = None, ft_completed_at = None\<rparr>"

definition backlog :: db where
  "backlog =
     project_created
       \<lparr>features := [new_feature 1 1 ''export'' LOW, new_feature 2 1 ''login'' HIGH,
                     new_feature 3 2 ''search'' MEDIUM, new_feature 4 1 ''signup'' HIGH]\<rparr>"

text \<open>
  \<open>project_created\<close> with a failed run record of \<^verbatim>\<open>input-agent\<close>, the row that
  \<^verbatim>\<open>mark_agent_failed\<close> means to leave: a record that is not complete.
\<close>

definition input_failed :: db where
  "input_failed =
     project_created
       \<lparr>agents :=
          [\<lparr>ag_id = 1, ag_project_id = 1, ag_agent_name = ''input-agent'', ag_phase_number = 0,
            ag_status = AgFailed, ag_output_artifacts = None, ag_error_message = Some ''boom'',
            ag_started_at = None, ag_completed_at = Some 2\<rparr>]\<rparr>"

text \<open>
  Project 1 with one LOW, one MEDIUM and two HIGH features, inserted in that order, and
  the same backlog after \<^verbatim>\<open>mark_feature_complete(1, 3)\<close> and then
  \<^verbatim>\<open>mark_feature_complete(1, 4)\<close> at time 6.
\<close>

definition backlog_priorities :: db where
  "backlog_priorities =
     project_created
       \<lparr>features := [new_feature 1 1 ''export'' LOW, new_feature 2 1 ''search'' MEDIUM,
                     new_feature 3 1 ''login'' HIGH, new_feature 4 1 ''signup'' HIGH]\<rparr>"

definition backlog_high_done :: db where
  "backlog_high_done =
     snd (mark_feature_complete (snd (mark_feature_complete backlog_priorities 6 1 3)) 6 1 4)"

section \<open>Properties\<close>

subsection \<open>Rows and queries\<close>

lemma small_ids: "sqlite_int 1" "sqlite_int 2" "sqlite_int 3" "sqlite_int 9"
  by (simp_all add: sqlite_int_def)

lemma fetchone_map: "fetchone (map g rows) = map_option g (fetchone rows)"
  by (cases rows) (simp_all add: fetchone_def)

lemma fetchone_None: "fetchone rows = None \<longleftrightarrow> rows = []"
  by (cases rows) (simp_all add: fetchone_def)

lemma fetchone_Cons: "rows = r # rest \<Longrightarrow> fetchone rows = Some r"
  by (simp add: fetchone_def)

lemma map_unmatched:
  "(\<And>x. x \<in> set rows \<Longrightarrow> \<not> P x) \<Longrightarrow> map (\<lambda>x. if P x then g x else x) rows = rows"
  by (induction rows) simp_all

lemma filter_update:
  "(\<And>x. P (g x) = P x) \<Longrightarrow> filter P (map (\<lambda>x. if P x then g x else x) rows) = map g (filter P rows)"
  by (induction rows) simp_all

lemma filter_update_away:
  "(\<And>x. \<not> P (g x)) \<Longrightarrow> filter P (map (\<lambda>x. if P x then g x else x) rows) = []"
  by (induction rows) simp_all

lemma feature_row_after_update:
  assumes "\<And>x. ft_id (g x) = ft_id x"
  shows "fetchone (filter (\<lambda>x. ft_id x = f)
            (map (\<lambda>x. if ft_id x = f then g x else x) rows)) =
         map_option g (fetchone (filter (\<lambda>x. ft_id x = f) rows))"
proof -
  have "filter (\<lambda>x. ft_id x = f) (map (\<lambda>x. if ft_id x = f then g x else x) rows) =
        map g (filter (\<lambda>x. ft_id x = f) rows)"
    using assms by (induction rows) simp_all
  then show ?thesis by (simp add: fetchone_map)
qed

lemma feature_row_None:
  "feature_row conn f = None \<longleftrightarrow> (\<forall>x \<in> set (features conn). ft_id x \<noteq> f)"
  by (simp add: feature_row_def fetchone_None filter_empty_conv)

subsection \<open>Agent failure\<close>

text \<open>
  \<^bold>\<open>C4\<close> says that every call of \<^verbatim>\<open>mark_agent_failed\<close> succeeds and inserts a failed run
  record.  The statement \<^verbatim>\<open>INSERT INTO agents (project_id, agent_name, status,
  error_message, completed_at)\<close> leaves out \<^verbatim>\<open>phase_number\<close>, which the schema declares
  \<^verbatim>\<open>NOT NULL\<close> without a default.  So on every database and for every argument the call
  raises \<^verbatim>\<open>IntegrityError\<close>, the transaction is rolled back and the database is the one
  before the call: no failed row is ever inserted.
\<close>

theorem mark_agent_failed_raises:
  "mark_agent_failed conn now project_id agent_name error =
     (Inl (IntegrityError ''NOT NULL constraint failed: agents.phase_number''), conn) \<and>
   failed_rows (snd (mark_agent_failed conn now project_id agent_name error))
       project_id agent_name =
     failed_rows conn project_id agent_name"
  by (simp add: mark_agent_failed_def mark_agent_failed_body_def insert_agent_def
      get_connection_def)

subsection \<open>Feature operations\<close>

lemma features_mark_feature_complete:
  "features (snd (mark_feature_complete conn now p f)) =
     map (\<lambda>x. if ft_id x = f then x\<lparr>ft_status := FtComplete, ft_completed_at := Some now\<rparr> else x)
       (features conn)"
  by (simp add: mark_feature_complete_def mark_feature_complete_body_def get_connection_def
      log_event_def Let_def)

lemma features_record_feature_retry:
  "features (snd (record_feature_retry conn now p f)) =
     map (\<lambda>x. if ft_id x = f then x\<lparr>ft_retry_count := ft_retry_count x + 1\<rparr> else x)
       (features conn)"
  by (simp add: record_feature_retry_def record_feature_retry_body_def get_connection_def
      log_event_def Let_def split: option.splits)

text \<open>
  \<^bold>\<open>C8\<close>: \<^verbatim>\<open>mark_feature_complete(p, f)\<close> and \<^verbatim>\<open>record_feature_retry(p, f)\<close> update the
  feature row with id \<open>f\<close> whoever owns it.  For ids in SQLite's range, the features table
  after the call is the same for every project id \<open>p\<close> and \<open>p'\<close> passed in, and a row \<open>row\<close>
  with id \<open>f\<close>, of whatever \<open>ft_project_id\<close>, is completed (status and completion
  timestamp) or has its retry counter incremented by one.
\<close>

theorem feature_updates_ignore_project_id:
  assumes "sqlite_int p" and "sqlite_int p'" and "sqlite_int f"
  shows "features (snd (mark_feature_complete conn now p f)) =
           features (snd (mark_feature_complete conn now p' f)) \<and>
         features (snd (record_feature_retry conn now p f)) =
           features (snd (record_feature_retry conn now p' f)) \<and>
         (feature_row conn f = Some row \<longrightarrow>
            feature_row (snd (mark_feature_complete conn now p f)) f =
              Some (row\<lparr>ft_status := FtComplete, ft_completed_at := Some now\<rparr>) \<and>
            feature_row (snd (record_feature_retry conn now p f)) f =
              Some (row\<lparr>ft_retry_count := ft_retry_count row + 1\<rparr>))"
  by (simp add: features_mark_feature_complete features_record_feature_retry feature_row_def
      feature_row_after_update)

lemma backlog_feature_3: "feature_row backlog 3 = Some (new_feature 3 2 ''search'' MEDIUM)"
  by (simp add: feature_row_def backlog_def new_feature_def fetchone_def)

text \<open>
  In \<open>backlog\<close> feature 3 belongs to project 2; a caller passing project id 1 completes it
  and increments its retry counter, exactly as a caller passing project id 2 does.
\<close>

theorem feature_updates_ignore_project_id_witness:
  "sqlite_int 1 \<and> sqlite_int 2 \<and> sqlite_int 3 \<and>
   ft_project_id (new_feature 3 2 ''search'' MEDIUM) = 2 \<and>
   feature_row backlog 3 = Some (new_feature 3 2 ''search'' MEDIUM) \<and>
   features (snd (mark_feature_complete backlog 6 1 3)) =
     features (snd (mark_feature_complete backlog 6 2 3)) \<and>
   features (snd (record_feature_retry backlog 6 1 3)) =
     features (snd (record_feature_retry backlog 6 2 3)) \<and>
   feature_row (snd (mark_feature_complete backlog 6 1 3)) 3 =
     Some ((new_feature 3 2 ''search'' MEDIUM)
             \<lparr>ft_status := FtComplete, ft_completed_at := Some 6\<rparr>) \<and>
   feature_row (snd (record_feature_retry backlog 6 1 3)) 3 =
     Some ((new_feature 3 2 ''search'' MEDIUM)\<lparr>ft_retry_count := 1\<rparr>)"
  using feature_updates_ignore_project_id
      [OF small_ids(1) small_ids(2) small_ids(3), of backlog 6 "new_feature 3 2 ''search'' MEDIUM"]
    backlog_feature_3 small_ids
  by (simp add: new_feature_def)

text \<open>
  \<^bold>\<open>C10\<close>: when no feature row has the id \<open>f\<close> (ids in SQLite's range),
  \<^verbatim>\<open>mark_feature_complete\<close> still replies with success: its \<^verbatim>\<open>UPDATE\<close> matches no row, so
  the features are unchanged, and the audit entry it appends records the feature name
  \<^verbatim>\<open>"Unknown"\<close>.  \<^verbatim>\<open>record_feature_retry\<close> on the same id replies with the failure
  \<^verbatim>\<open>"Feature not found"\<close> and leaves the database as it was.
\<close>

theorem missing_feature_replies_disagree:
  assumes "feature_row conn f = None" and "sqlite_int p" and "sqlite_int f"
  shows "fst (mark_feature_complete conn now p f) = Inr (Success ()) \<and>
         features (snd (mark_feature_complete conn now p f)) = features conn \<and>
         (\<exists>entry. audit_log (snd (mark_feature_complete conn now p f)) =
                     audit_log conn @ [entry] \<and>
            au_event_type entry = ''feature_complete'' \<and>
            au_details entry =
              JObj [(''feature_id'', JInt f), (''feature_name'', JStr ''Unknown'')]) \<and>
         record_feature_retry conn now p f = (Inr (Failure ''Feature not found''), conn)"
proof -
  have none: "\<And>x. x \<in> set (features conn) \<Longrightarrow> \<not> ft_id x = f"
    using assms(1) by (simp add: feature_row_None)
  have same: "\<And>g. map (\<lambda>x. if ft_id x = f then g x else x) (features conn) = features conn"
    using none by (rule map_unmatched)
  have look: "fetchone (filter (\<lambda>x. ft_id x = f) (features conn)) = None"
    using assms(1) by (simp add: feature_row_def)
  show ?thesis
    by (simp add: mark_feature_complete_def mark_feature_complete_body_def
        record_feature_retry_def record_feature_retry_body_def get_connection_def
        log_event_def Let_def same look)
qed

lemma backlog_feature_9: "feature_row backlog 9 = None"
  by (simp add: feature_row_def backlog_def new_feature_def fetchone_def)

theorem missing_feature_replies_disagree_witness:
  "feature_row backlog 9 = None \<and> sqlite_int 1 \<and> sqlite_int 9 \<and>
   fst (mark_feature_complete backlog 6 1 9) = Inr (Success ()) \<and>
   features (snd (mark_feature_complete backlog 6 1 9)) = features backlog \<and>
   record_feature_retry backlog 6 1 9 = (Inr (Failure ''Feature not found''), backlog)"
  using missing_feature_replies_disagree [OF backlog_feature_9 small_ids(1) small_ids(4), of 6]
    backlog_feature_9 small_ids
  by simp

subsection \<open>Approval gates\<close>

lemma gate2_contains: "str_contains ''Gate'' ''Gate 2''"
  by (simp add: starts_with_def)

lemma gate2_number: "gate_number_of ''Gate 2'' = Inr (Some 2)"
  by (simp add: gate_number_of_def py_split_def isspace_def py_int_def py_strip_def
      parse_digits_def digit_val_def)

lemma record_approval_gate_2_approved:
  "record_approval conn now project_id ''Gate 2'' True feedback =
     (Inr (Success True),
      log_event
        (advance_phase (resolve_gates conn now project_id ''Gate 2'' GApproved feedback)
           now project_id 2)
        now project_id ''approval_recorded''
        (JObj [(''gate_name'', JStr ''Gate 2''), (''approved'', JBool True),
               (''feedback'', feedback_json feedback)]) None None)"
  by (simp add: record_approval_def record_approval_body_def get_connection_def gate2_contains
      gate2_number sqlite_int_def Let_def del: str_contains.simps)

lemma record_approval_rejected:
  "record_approval conn now project_id gate_name False feedback =
     (Inr (Success False),
      log_event (resolve_gates conn now project_id gate_name GRejected feedback)
        now project_id ''approval_recorded''
        (JObj [(''gate_name'', JStr gate_name), (''approved'', JBool False),
               (''feedback'', feedback_json feedback)]) None None)"
  by (simp add: record_approval_def record_approval_body_def get_connection_def Let_def)

lemma pending_gates_resolved:
  "status \<noteq> GPending \<Longrightarrow>
   filter (\<lambda>g. g_project_id g = project_id \<and> g_gate_name g = gate_name \<and> g_status g = GPending)
     (approval_gates (resolve_gates conn now project_id gate_name status feedback)) = []"
  by (simp add: resolve_gates_def filter_update_away)

text \<open>
  \<^bold>\<open>C7\<close>: for a project with a pending gate named \<^verbatim>\<open>"Gate 2"\<close>, \<^verbatim>\<open>record_approval\<close>
  with \<^verbatim>\<open>approved = True\<close> succeeds, sets the project's \<^verbatim>\<open>current_phase\<close> to 2 (and
  touches \<^verbatim>\<open>updated_at\<close>), and turns every phase-2 row of the project to
  \<^verbatim>\<open>in_progress\<close> with the start timestamp \<open>now\<close>.  With \<^verbatim>\<open>approved = False\<close> the
  projects and phases tables are left exactly as they were.  In both cases no gate of
  that name is pending afterwards.
\<close>

theorem record_approval_gate_2:
  assumes "pending_gates conn project_id ''Gate 2'' \<noteq> []"
    and "project_row conn project_id = Some project"
  shows "fst (record_approval conn now project_id ''Gate 2'' True feedback) =
           Inr (Success True) \<and>
         project_row (snd (record_approval conn now project_id ''Gate 2'' True feedback))
             project_id =
           Some (project\<lparr>p_current_phase := 2, p_updated_at := now\<rparr>) \<and>
         phase_rows (snd (record_approval conn now project_id ''Gate 2'' True feedback))
             project_id 2 =
           map (\<lambda>ph. ph\<lparr>ph_status := PhInProgress, ph_started_at := Some now\<rparr>)
             (phase_rows conn project_id 2) \<and>
         pending_gates (snd (record_approval conn now project_id ''Gate 2'' True feedback))
             project_id ''Gate 2'' = [] \<and>
         fst (record_approval conn now project_id ''Gate 2'' False feedback) =
           Inr (Success False) \<and>
         projects (snd (record_approval conn now project_id ''Gate 2'' False feedback)) =
           projects conn \<and>
         phases (snd (record_approval conn now project_id ''Gate 2'' False feedback)) =
           phases conn \<and>
         pending_gates (snd (record_approval conn now project_id ''Gate 2'' False feedback))
             project_id ''Gate 2'' = []"
proof -
  have row: "fetchone (filter (\<lambda>p. p_id p = project_id) (projects conn)) = Some project"
    using assms(2) by (simp add: project_row_def)
  have p: "project_row (snd (record_approval conn now project_id ''Gate 2'' True feedback))
             project_id = Some (project\<lparr>p_current_phase := 2, p_updated_at := now\<rparr>)"
    by (simp add: record_approval_gate_2_approved project_row_def log_event_def
        advance_phase_def resolve_gates_def filter_update fetchone_map row)
  have ph: "phase_rows (snd (record_approval conn now project_id ''Gate 2'' True feedback))
             project_id 2 =
           map (\<lambda>ph. ph\<lparr>ph_status := PhInProgress, ph_started_at := Some now\<rparr>)
             (phase_rows conn project_id 2)"
    by (simp add: record_approval_gate_2_approved phase_rows_def log_event_def
        advance_phase_def resolve_gates_def filter_update)
  have g: "pending_gates (snd (record_approval conn now project_id ''Gate 2'' True feedback))
             project_id ''Gate 2'' = []"
    using pending_gates_resolved [of GApproved project_id "''Gate 2''" conn now feedback]
    by (simp add: record_approval_gate_2_approved pending_gates_def log_event_def
        advance_phase_def)
  have g': "pending_gates (snd (record_approval conn now project_id ''Gate 2'' False feedback))
             project_id ''Gate 2'' = []"
    using pending_gates_resolved [of GRejected project_id "''Gate 2''" conn now feedback]
    by (simp add: record_approval_rejected pending_gates_def log_event_def)
  have r: "projects (snd (record_approval conn now project_id ''Gate 2'' False feedback)) =
           projects conn \<and>
         phases (snd (record_approval conn now project_id ''Gate 2'' False feedback)) =
           phases conn"
    by (simp add: record_approval_rejected log_event_def resolve_gates_def)
  show ?thesis
    using p ph g g' r by (simp add: record_approval_gate_2_approved record_approval_rejected)
qed

lemma gate2_is_pending: "pending_gates gate2_pending 1 ''Gate 2'' \<noteq> []"
  by (simp add: pending_gates_def gate2_pending_def pending_gate_def)

lemma gate2_project:
  "project_row gate2_pending 1 =
     Some \<lparr>p_id = 1, p_name = ''P'', p_description = ''demo'', p_tech_stack = ''default'',
           p_current_phase = 0, p_status = Active, p_created_at = 1, p_updated_at = 1\<rparr>"
  by (simp add: project_row_def gate2_pending_def project_created_def fetchone_def)

lemma gate2_phase:
  "phase_rows gate2_pending 1 2 =
     [\<lparr>ph_id = 3, ph_project_id = 1, ph_phase_number = 2, ph_phase_name = ''Technical Design'',
       ph_status = PhPending, ph_started_at = None, ph_completed_at = None\<rparr>]"
  by (simp add: phase_rows_def gate2_pending_def project_created_def)

text \<open>On \<open>gate2_pending\<close>: project 1 moves from phase 0 to phase 2 on approval at time 9.\<close>

theorem record_approval_gate_2_witness:
  "pending_gates gate2_pending 1 ''Gate 2'' \<noteq> [] \<and>
   project_row (snd (record_approval gate2_pending 9 1 ''Gate 2'' True None)) 1 =
     Some \<lparr>p_id = 1, p_name = ''P'', p_description = ''demo'', p_tech_stack = ''default'',
           p_current_phase = 2, p_status = Active, p_created_at = 1, p_updated_at = 9\<rparr> \<and>
   phase_rows (snd (record_approval gate2_pending 9 1 ''Gate 2'' True None)) 1 2 =
     [\<lparr>ph_id = 3, ph_project_id = 1, ph_phase_number = 2, ph_phase_name = ''Technical Design'',
       ph_status = PhInProgress, ph_started_at = Some 9, ph_completed_at = None\<rparr>] \<and>
   projects (snd (record_approval gate2_pending 9 1 ''Gate 2'' False None)) =
     projects gate2_pending \<and>
   phases (snd (record_approval gate2_pending 9 1 ''Gate 2'' False None)) =
     phases gate2_pending"
  using record_approval_gate_2 [OF gate2_is_pending gate2_project, of 9 None] gate2_is_pending
  by (simp add: gate2_phase)

lemma resolve_gates_none_pending:
  assumes "pending_gates conn project_id gate_name = []"
  shows "resolve_gates conn now project_id gate_name status feedback = conn"
proof -
  have "\<And>g. g \<in> set (approval_gates conn) \<Longrightarrow>
          \<not> (g_project_id g = project_id \<and> g_gate_name g = gate_name \<and> g_status g = GPending)"
    using assms by (simp add: pending_gates_def filter_empty_conv)
  then have "map (\<lambda>g. if g_project_id g = project_id \<and> g_gate_name g = gate_name \<and>
                          g_status g = GPending
                       then g\<lparr>g_status := status, g_user_feedback := feedback,
                              g_resolved_at := Some now\<rparr>
                       else g) (approval_gates conn) = approval_gates conn"
    by (rule map_unmatched)
  then show ?thesis by (simp add: resolve_gates_def)
qed

lemma record_approval_frame:
  "agents (snd (record_approval conn now project_id gate_name approved feedback)) = agents conn \<and>
   features (snd (record_approval conn now project_id gate_name approved feedback)) =
     features conn \<and>
   dependencies (snd (record_approval conn now project_id gate_name approved feedback)) =
     dependencies conn"
  by (simp add: record_approval_def record_approval_body_def get_connection_def Let_def
      log_event_def advance_phase_def resolve_gates_def
      split: sum.splits option.splits del: str_contains.simps)

lemma record_approval_gates_none_pending:
  assumes "pending_gates conn project_id gate_name = []"
  shows "approval_gates (snd (record_approval conn now project_id gate_name approved feedback)) =
         approval_gates conn"
  by (simp add: record_approval_def record_approval_body_def get_connection_def Let_def
      log_event_def advance_phase_def resolve_gates_none_pending [OF assms]
      split: sum.splits option.splits del: str_contains.simps)

lemma record_approval_no_advance:
  assumes "\<not> approved \<or> \<not> str_contains ''Gate'' gate_name"
  shows "record_approval conn now project_id gate_name approved feedback =
     (Inr (Success approved),
      log_event
        (resolve_gates conn now project_id gate_name (if approved then GApproved else GRejected)
           feedback)
        now project_id ''approval_recorded''
        (JObj [(''gate_name'', JStr gate_name), (''approved'', JBool approved),
               (''feedback'', feedback_json feedback)]) None None)"
  using assms
  by (auto simp add: record_approval_def record_approval_body_def get_connection_def Let_def
      simp del: str_contains.simps)

lemma record_approval_body_none_pending:
  assumes "pending_gates conn project_id gate_name = []"
  shows "record_approval conn now project_id gate_name approved feedback =
     (case (if approved \<and> str_contains ''Gate'' gate_name then
              (case gate_number_of gate_name of
                 Inl e \<Rightarrow> Inl e
               | Inr None \<Rightarrow> Inr conn
               | Inr (Some gate_number) \<Rightarrow>
                   if gate_number \<noteq> 0 then
                     (if sqlite_int gate_number
                      then Inr (advance_phase conn now project_id gate_number)
                      else Inl OverflowError)
                   else Inr conn)
            else Inr conn) of
        Inl e \<Rightarrow> (Inl e, conn)
      | Inr conn2 \<Rightarrow>
          (Inr (Success approved),
           log_event conn2 now project_id ''approval_recorded''
             (JObj [(''gate_name'', JStr gate_name), (''approved'', JBool approved),
                    (''feedback'', feedback_json feedback)]) None None))"
  by (simp add: record_approval_def record_approval_body_def get_connection_def Let_def
      resolve_gates_none_pending [OF assms]
      split: sum.splits option.splits del: str_contains.simps)

text \<open>
  \<^bold>\<open>C3\<close>, as the code has it.  The claim says that \<^verbatim>\<open>record_approval\<close> changes nothing
  when no gate of that name is pending.  What holds, for a project id in SQLite's range:
  the \<^verbatim>\<open>UPDATE\<close> of the gates matches no row, so the gates table is unchanged, and so are
  the agents, the features and the dependency graph.  Whenever the call returns, it
  replies with success and has appended one \<^verbatim>\<open>approval_recorded\<close> audit entry; when it
  raises, the database is the one before the call.  The projects and phases tables are
  unchanged unless \<^verbatim>\<open>approved\<close> is true, the name contains \<^verbatim>\<open>"Gate"\<close> and its second
  whitespace-separated token is a nonzero integer in SQLite's range.  The call returns
  whenever \<^verbatim>\<open>approved\<close> is false, the name does not contain \<^verbatim>\<open>"Gate"\<close>, the name has no
  second token, or that token is the integer 0.
\<close>

theorem record_approval_without_pending_gate:
  assumes "pending_gates conn project_id gate_name = []"
    and "sqlite_int project_id"
  shows "approval_gates (snd (record_approval conn now project_id gate_name approved feedback)) =
           approval_gates conn \<and>
         agents (snd (record_approval conn now project_id gate_name approved feedback)) =
           agents conn \<and>
         features (snd (record_approval conn now project_id gate_name approved feedback)) =
           features conn \<and>
         dependencies (snd (record_approval conn now project_id gate_name approved feedback)) =
           dependencies conn \<and>
         (\<forall>r. fst (record_approval conn now project_id gate_name approved feedback) = Inr r \<longrightarrow>
            r = Success approved \<and>
            (\<exists>entry.
               audit_log (snd (record_approval conn now project_id gate_name approved feedback)) =
                 audit_log conn @ [entry] \<and>
               au_project_id entry = project_id \<and>
               au_event_type entry = ''approval_recorded'')) \<and>
         (\<forall>e. fst (record_approval conn now project_id gate_name approved feedback) = Inl e \<longrightarrow>
            snd (record_approval conn now project_id gate_name approved feedback) = conn) \<and>
         (\<not> (approved \<and> str_contains ''Gate'' gate_name \<and>
              (\<exists>n. gate_number_of gate_name = Inr (Some n) \<and> n \<noteq> 0 \<and> sqlite_int n)) \<longrightarrow>
            projects (snd (record_approval conn now project_id gate_name approved feedback)) =
              projects conn \<and>
            phases (snd (record_approval conn now project_id gate_name approved feedback)) =
              phases conn) \<and>
         (\<not> approved \<or> \<not> str_contains ''Gate'' gate_name \<or>
          gate_number_of gate_name = Inr None \<or> gate_number_of gate_name = Inr (Some 0) \<longrightarrow>
            fst (record_approval conn now project_id gate_name approved feedback) =
              Inr (Success approved))"
proof -
  note shape = record_approval_body_none_pending [OF assms(1), of now approved feedback]
  have frame: "approval_gates (snd (record_approval conn now project_id gate_name approved feedback)) =
           approval_gates conn \<and>
         agents (snd (record_approval conn now project_id gate_name approved feedback)) =
           agents conn \<and>
         features (snd (record_approval conn now project_id gate_name approved feedback)) =
           features conn \<and>
         dependencies (snd (record_approval conn now project_id gate_name approved feedback)) =
           dependencies conn"
    using record_approval_frame [of conn now project_id gate_name approved feedback]
      record_approval_gates_none_pending [OF assms(1), of now approved feedback]
    by blast
  have returns: "\<forall>r. fst (record_approval conn now project_id gate_name approved feedback) = Inr r \<longrightarrow>
            r = Success approved \<and>
            (\<exists>entry.
               audit_log (snd (record_approval conn now project_id gate_name approved feedback)) =
                 audit_log conn @ [entry] \<and>
               au_project_id entry = project_id \<and>
               au_event_type entry = ''approval_recorded'')"
    unfolding shape
    by (simp add: log_event_def advance_phase_def split: sum.splits option.splits
        del: str_contains.simps)
  have raises: "\<forall>e. fst (record_approval conn now project_id gate_name approved feedback) = Inl e \<longrightarrow>
            snd (record_approval conn now project_id gate_name approved feedback) = conn"
    unfolding shape
    by (simp split: sum.splits option.splits del: str_contains.simps)
  have quiet: "\<not> (approved \<and> str_contains ''Gate'' gate_name \<and>
              (\<exists>n. gate_number_of gate_name = Inr (Some n) \<and> n \<noteq> 0 \<and> sqlite_int n)) \<longrightarrow>
            projects (snd (record_approval conn now project_id gate_name approved feedback)) =
              projects conn \<and>
            phases (snd (record_approval conn now project_id gate_name approved feedback)) =
              phases conn"
    unfolding shape
    by (auto simp add: log_event_def split: sum.splits option.splits
        simp del: str_contains.simps)
  have succeeds: "\<not> approved \<or> \<not> str_contains ''Gate'' gate_name \<or>
          gate_number_of gate_name = Inr None \<or> gate_number_of gate_name = Inr (Some 0) \<longrightarrow>
            fst (record_approval conn now project_id gate_name approved feedback) =
              Inr (Success approved)"
    unfolding shape
    by (auto simp del: str_contains.simps)
  show ?thesis
    using frame returns raises quiet succeeds by blast
qed

lemma gate2_rejected_none_pending: "pending_gates gate2_rejected 1 ''Gate 2'' = []"
  by (simp add: pending_gates_def gate2_rejected_def pending_gate_def)

lemma gate_none_pending: "pending_gates gate2_rejected 1 ''Gate'' = []"
  by (simp add: pending_gates_def gate2_rejected_def pending_gate_def)

lemma gate_contains: "str_contains ''Gate'' ''Gate''"
  by (simp add: starts_with_def)

lemma gate_number_none: "gate_number_of ''Gate'' = Inr None"
  by (simp add: gate_number_of_def py_split_def isspace_def)

text \<open>
  On \<open>gate2_rejected\<close>, whose only gate was rejected earlier: a second rejection of
  \<^verbatim>\<open>"Gate 2"\<close>, and an approval of the never requested gate \<^verbatim>\<open>"Gate"\<close>, whose name has
  no second token.  Both return, append an audit entry and leave projects and phases alone.
\<close>

theorem record_approval_without_pending_gate_witness:
  "pending_gates gate2_rejected 1 ''Gate 2'' = [] \<and> sqlite_int 1 \<and>
   approval_gates (snd (record_approval gate2_rejected 9 1 ''Gate 2'' False None)) =
     approval_gates gate2_rejected \<and>
   fst (record_approval gate2_rejected 9 1 ''Gate 2'' False None) = Inr (Success False) \<and>
   projects (snd (record_approval gate2_rejected 9 1 ''Gate 2'' False None)) =
     projects gate2_rejected \<and>
   phases (snd (record_approval gate2_rejected 9 1 ''Gate 2'' False None)) =
     phases gate2_rejected \<and>
   length (audit_log (snd (record_approval gate2_rejected 9 1 ''Gate 2'' False None))) =
     length (audit_log gate2_rejected) + 1 \<and>
   pending_gates gate2_rejected 1 ''Gate'' = [] \<and>
   str_contains ''Gate'' ''Gate'' \<and> gate_number_of ''Gate'' = Inr None \<and>
   fst (record_approval gate2_rejected 9 1 ''Gate'' True None) = Inr (Success True) \<and>
   projects (snd (record_approval gate2_rejected 9 1 ''Gate'' True None)) =
     projects gate2_rejected \<and>
   phases (snd (record_approval gate2_rejected 9 1 ''Gate'' True None)) =
     phases gate2_rejected \<and>
   length (audit_log (snd (record_approval gate2_rejected 9 1 ''Gate'' True None))) =
     length (audit_log gate2_rejected) + 1"
proof -
  note rejected =
    record_approval_without_pending_gate
      [OF gate2_rejected_none_pending small_ids(1), of 9 False None]
  note single =
    record_approval_without_pending_gate [OF gate_none_pending small_ids(1), of 9 True None]
  note rejected_gates = rejected [THEN conjunct1]
  note rejected_returns = rejected [THEN conjunct2, THEN conjunct2, THEN conjunct2,
      THEN conjunct2, THEN conjunct1]
  note rejected_quiet = rejected [THEN conjunct2, THEN conjunct2, THEN conjunct2,
      THEN conjunct2, THEN conjunct2, THEN conjunct2, THEN conjunct1]
  note rejected_succeeds = rejected [THEN conjunct2, THEN conjunct2, THEN conjunct2,
      THEN conjunct2, THEN conjunct2, THEN conjunct2, THEN conjunct2]
  note single_returns = single [THEN conjunct2, THEN conjunct2, THEN conjunct2,
      THEN conjunct2, THEN conjunct1]
  note single_quiet = single [THEN conjunct2, THEN conjunct2, THEN conjunct2,
      THEN conjunct2, THEN conjunct2, THEN conjunct2, THEN conjunct1]
  note single_succeeds = single [THEN conjunct2, THEN conjunct2, THEN conjunct2,
      THEN conjunct2, THEN conjunct2, THEN conjunct2, THEN conjunct2]
  have r: "fst (record_approval gate2_rejected 9 1 ''Gate 2'' False None) = Inr (Success False)"
    using rejected_succeeds by simp
  have s: "fst (record_approval gate2_rejected 9 1 ''Gate'' True None) = Inr (Success True)"
    using single_succeeds gate_number_none by simp
  have rl: "length (audit_log (snd (record_approval gate2_rejected 9 1 ''Gate 2'' False None))) =
     length (audit_log gate2_rejected) + 1"
    using rejected_returns r by auto
  have sl: "length (audit_log (snd (record_approval gate2_rejected 9 1 ''Gate'' True None))) =
     length (audit_log gate2_rejected) + 1"
    using single_returns s by auto
  have rp: "projects (snd (record_approval gate2_rejected 9 1 ''Gate 2'' False None)) =
     projects gate2_rejected \<and>
   phases (snd (record_approval gate2_rejected 9 1 ''Gate 2'' False None)) =
     phases gate2_rejected"
    using rejected_quiet by simp
  have sp: "projects (snd (record_approval gate2_rejected 9 1 ''Gate'' True None)) =
     projects gate2_rejected \<and>
   phases (snd (record_approval gate2_rejected 9 1 ''Gate'' True None)) =
     phases gate2_rejected"
    using single_quiet gate_number_none by simp
  show ?thesis
    using r s rl sl rp sp rejected_gates gate2_rejected_none_pending gate_none_pending
      gate_contains gate_number_none small_ids(1)
    by simp
qed

text \<open>
  The claim \<^bold>\<open>C3\<close> as stated fails: in \<open>gate2_rejected\<close> no gate named \<^verbatim>\<open>"Gate 2"\<close> is
  pending (the only one was rejected), yet \<^verbatim>\<open>record_approval(1, "Gate 2", True)\<close> moves
  the project from phase 0 to phase 2, sets the phase-2 row in progress and appends an
  audit entry.
\<close>

theorem record_approval_without_pending_gate_counterexample:
  "pending_gates gate2_rejected 1 ''Gate 2'' = [] \<and>
   snd (record_approval gate2_rejected 9 1 ''Gate 2'' True None) \<noteq> gate2_rejected \<and>
   map p_current_phase (projects gate2_rejected) = [0] \<and>
   map p_current_phase (projects (snd (record_approval gate2_rejected 9 1 ''Gate 2'' True None))) =
     [2] \<and>
   map ph_status (phase_rows gate2_rejected 1 2) = [PhPending] \<and>
   map ph_status (phase_rows (snd (record_approval gate2_rejected 9 1 ''Gate 2'' True None)) 1 2) =
     [PhInProgress] \<and>
   length (audit_log (snd (record_approval gate2_rejected 9 1 ''Gate 2'' True None))) =
     length (audit_log gate2_rejected) + 1"
proof -
  have a: "map p_current_phase (projects gate2_rejected) = [0]"
    by (simp add: gate2_rejected_def project_created_def)
  have b: "map p_current_phase
             (projects (snd (record_approval gate2_rejected 9 1 ''Gate 2'' True None))) = [2]"
    by (simp add: record_approval_gate_2_approved log_event_def advance_phase_def
        resolve_gates_def gate2_rejected_def project_created_def)
  have c: "map ph_status (phase_rows gate2_rejected 1 2) = [PhPending]"
    by (simp add: phase_rows_def gate2_rejected_def project_created_def)
  have d: "map ph_status
             (phase_rows (snd (record_approval gate2_rejected 9 1 ''Gate 2'' True None)) 1 2) =
           [PhInProgress]"
    by (simp add: record_approval_gate_2_approved phase_rows_def log_event_def advance_phase_def
        resolve_gates_def gate2_rejected_def project_created_def)
  have e: "length (audit_log (snd (record_approval gate2_rejected 9 1 ''Gate 2'' True None))) =
           length (audit_log gate2_rejected) + 1"
    by (simp add: record_approval_gate_2_approved log_event_def advance_phase_def
        resolve_gates_def)
  have f: "snd (record_approval gate2_rejected 9 1 ''Gate 2'' True None) \<noteq> gate2_rejected"
    using a b by auto
  show ?thesis using a b c d e f gate2_rejected_none_pending by simp
qed

lemma feature_gate_contains: "str_contains ''Gate'' ''Feature Gate''"
  by (simp add: starts_with_def)

lemma feature_gate_split: "py_split ''Feature Gate'' = [''Feature'', ''Gate'']"
  by (simp add: py_split_def isspace_def)

lemma feature_gate_int: "py_int ''Gate'' = Inl (ValueError ''Gate'')"
  by (simp add: py_int_def py_strip_def isspace_def parse_digits_def digit_val_def)

text \<open>
  \<^bold>\<open>C9\<close>: when the gate name contains \<^verbatim>\<open>"Gate"\<close>, has a second whitespace-separated
  token, and \<^verbatim>\<open>int\<close> rejects that token with the exception \<open>e\<close>, an approving
  \<^verbatim>\<open>record_approval\<close> raises \<open>e\<close> inside the transaction.  The database after the call is
  the database before it, so a gate that was pending is still pending and no audit entry
  is written, and \<^verbatim>\<open>call_tool\<close> reports the failure with the tool's name.
\<close>

theorem record_approval_bad_gate_number:
  assumes "str_contains ''Gate'' gate_name"
    and "length (py_split gate_name) > 1"
    and "py_int (py_split gate_name ! 1) = Inl e"
  shows "record_approval conn now project_id gate_name True feedback = (Inl e, conn) \<and>
         pending_gates (snd (record_approval conn now project_id gate_name True feedback))
             project_id gate_name =
           pending_gates conn project_id gate_name \<and>
         call_tool ''appforge_record_approval''
           (fst (record_approval conn now project_id gate_name True feedback)) =
           ToolError e ''appforge_record_approval''"
  using assms
  by (simp add: record_approval_def record_approval_body_def gate_number_of_def
      get_connection_def call_tool_def Let_def)

lemma feature_gate_len: "length (py_split ''Feature Gate'') > 1"
  by (simp add: feature_gate_split)

lemma feature_gate_token: "py_int (py_split ''Feature Gate'' ! 1) = Inl (ValueError ''Gate'')"
  by (simp add: feature_gate_split feature_gate_int)

lemma feature_gate_is_pending:
  "pending_gates feature_gate_pending 1 ''Feature Gate'' = [pending_gate ''Feature Gate'']"
  by (simp add: pending_gates_def feature_gate_pending_def pending_gate_def)

text \<open>
  The input of the claim: the gate \<^verbatim>\<open>"Feature Gate"\<close> is pending, its second token
  \<^verbatim>\<open>"Gate"\<close> is no integer.
\<close>

theorem record_approval_bad_gate_number_witness:
  "str_contains ''Gate'' ''Feature Gate'' \<and>
   length (py_split ''Feature Gate'') > 1 \<and>
   py_int (py_split ''Feature Gate'' ! 1) = Inl (ValueError ''Gate'') \<and>
   pending_gates feature_gate_pending 1 ''Feature Gate'' = [pending_gate ''Feature Gate''] \<and>
   record_approval feature_gate_pending 9 1 ''Feature Gate'' True None =
     (Inl (ValueError ''Gate''), feature_gate_pending) \<and>
   pending_gates (snd (record_approval feature_gate_pending 9 1 ''Feature Gate'' True None))
       1 ''Feature Gate'' = [pending_gate ''Feature Gate''] \<and>
   call_tool ''appforge_record_approval''
     (fst (record_approval feature_gate_pending 9 1 ''Feature Gate'' True None)) =
     ToolError (ValueError ''Gate'') ''appforge_record_approval''"
  using record_approval_bad_gate_number
      [OF feature_gate_contains feature_gate_len feature_gate_token, of feature_gate_pending 9 1 None]
    feature_gate_contains feature_gate_len feature_gate_token feature_gate_is_pending
  by (simp add: call_tool_def del: str_contains.simps)

subsection \<open>Agent readiness and completion\<close>








lemma input_done_agents:
  "agents input_done =
     [\<lparr>ag_id = 1, ag_project_id = 1, ag_agent_name = ''input-agent'', ag_phase_number = 0,
       ag_status = AgComplete, ag_output_artifacts = Some (JObj []), ag_error_message = None,
       ag_started_at = None, ag_completed_at = Some 2\<rparr>]"
  by (simp add: input_done_def mark_agent_complete_def
      mark_agent_complete_body_def get_connection_def insert_agent_def touch_project_def
      log_event_def project_created_def seeded_def init_schema_def empty_db_def
      initialize_dependency_graph_def seed_rows_def next_id_def fetchone_def Let_def)



text \<open>
  \<^bold>\<open>C2\<close>, as the code has it.  The claim says that a second \<^verbatim>\<open>mark_agent_complete\<close> for
  the same project and agent updates the existing record and never leaves two complete
  rows.  What holds for a known agent and a project id in SQLite's range: the call
  succeeds; if the pair has a record that is \<^emph>\<open>not\<close> complete, the first such record is
  updated in place (no row is inserted) and becomes complete with the artifacts and the
  completion timestamp; if it has none, and in particular when all its records are
  already complete, one new complete row is inserted.
\<close>

theorem mark_agent_complete_update_or_insert:
  assumes "dependency_row conn agent_name = Some dep_row"
    and "sqlite_int project_id"
  shows "fst (mark_agent_complete conn now project_id agent_name artifacts) =
           Inr (Success (d_phase_number dep_row)) \<and>
         (\<forall>row rest. open_rows conn project_id agent_name = row # rest \<longrightarrow>
            length (agents (snd (mark_agent_complete conn now project_id agent_name artifacts))) =
              length (agents conn) \<and>
            agents (snd (mark_agent_complete conn now project_id agent_name artifacts)) =
              map (\<lambda>a. if ag_id a = ag_id row
                        then a\<lparr>ag_status := AgComplete, ag_output_artifacts := Some artifacts,
                               ag_completed_at := Some now\<rparr>
                        else a) (agents conn)) \<and>
         (open_rows conn project_id agent_name = [] \<longrightarrow>
            agents (snd (mark_agent_complete conn now project_id agent_name artifacts)) =
              agents conn @
              [\<lparr>ag_id = next_id (map ag_id (agents conn)), ag_project_id = project_id,
                ag_agent_name = agent_name, ag_phase_number = d_phase_number dep_row,
                ag_status = AgComplete, ag_output_artifacts = Some artifacts,
                ag_error_message = None, ag_started_at = None, ag_completed_at = Some now\<rparr>])"
proof -
  have dep: "fetchone (filter (\<lambda>d. d_agent_name d = agent_name) (dependencies conn)) =
             Some dep_row"
    using assms(1) by (simp add: dependency_row_def)
  have ok: "fst (mark_agent_complete conn now project_id agent_name artifacts) =
            Inr (Success (d_phase_number dep_row))"
    by (simp add: mark_agent_complete_def mark_agent_complete_body_def get_connection_def dep
        insert_agent_def Let_def split: option.splits)
  have upd: "agents (snd (mark_agent_complete conn now project_id agent_name artifacts)) =
              map (\<lambda>a. if ag_id a = ag_id row
                        then a\<lparr>ag_status := AgComplete, ag_output_artifacts := Some artifacts,
                               ag_completed_at := Some now\<rparr>
                        else a) (agents conn)"
    if "open_rows conn project_id agent_name = row # rest" for row rest
  proof -
    have "fetchone (filter (\<lambda>a. ag_project_id a = project_id \<and> ag_agent_name a = agent_name \<and>
                                 ag_status a \<noteq> AgComplete) (agents conn)) = Some row"
      using that by (simp add: open_rows_def fetchone_Cons)
    then show ?thesis
      by (simp add: mark_agent_complete_def mark_agent_complete_body_def get_connection_def dep
          touch_project_def log_event_def Let_def)
  qed
  have ins: "agents (snd (mark_agent_complete conn now project_id agent_name artifacts)) =
              agents conn @
              [\<lparr>ag_id = next_id (map ag_id (agents conn)), ag_project_id = project_id,
                ag_agent_name = agent_name, ag_phase_number = d_phase_number dep_row,
                ag_status = AgComplete, ag_output_artifacts = Some artifacts,
                ag_error_message = None, ag_started_at = None, ag_completed_at = Some now\<rparr>]"
    if "open_rows conn project_id agent_name = []"
  proof -
    have "fetchone (filter (\<lambda>a. ag_project_id a = project_id \<and> ag_agent_name a = agent_name \<and>
                                 ag_status a \<noteq> AgComplete) (agents conn)) = None"
      using that by (simp add: open_rows_def fetchone_def)
    then show ?thesis
      by (simp add: mark_agent_complete_def mark_agent_complete_body_def get_connection_def dep
          insert_agent_def touch_project_def log_event_def Let_def)
  qed
  show ?thesis
    using ok upd ins by simp
qed

lemma input_done_dependencies: "dependencies input_done = dependencies seeded"
  by (simp add: input_done_def mark_agent_complete_def
      mark_agent_complete_body_def get_connection_def insert_agent_def touch_project_def
      log_event_def project_created_def Let_def split: option.splits)

lemma input_agent_dependency:
  "dependency_row input_done ''input-agent'' =
     Some \<lparr>d_id = 1, d_agent_name = ''input-agent'', d_depends_on = [], d_phase_number = 0\<rparr>"
  by (simp add: dependency_row_def input_done_dependencies seeded_def init_schema_def
      empty_db_def initialize_dependency_graph_def seed_rows_def next_id_def fetchone_def)

lemma input_done_no_open_rows: "open_rows input_done 1 ''input-agent'' = []"
  by (simp add: open_rows_def input_done_agents)

lemma input_failed_dependency:
  "dependency_row input_failed ''input-agent'' =
     Some \<lparr>d_id = 1, d_agent_name = ''input-agent'', d_depends_on = [], d_phase_number = 0\<rparr>"
  by (simp add: dependency_row_def input_failed_def project_created_def seeded_def
      init_schema_def empty_db_def initialize_dependency_graph_def seed_rows_def next_id_def
      fetchone_def)

lemma input_failed_open_rows:
  "open_rows input_failed 1 ''input-agent'' =
     [\<lparr>ag_id = 1, ag_project_id = 1, ag_agent_name = ''input-agent'', ag_phase_number = 0,
       ag_status = AgFailed, ag_output_artifacts = None, ag_error_message = Some ''boom'',
       ag_started_at = None, ag_completed_at = Some 2\<rparr>]"
  by (simp add: open_rows_def input_failed_def)

lemma input_failed_agents:
  "agents input_failed =
     [\<lparr>ag_id = 1, ag_project_id = 1, ag_agent_name = ''input-agent'', ag_phase_number = 0,
       ag_status = AgFailed, ag_output_artifacts = None, ag_error_message = Some ''boom'',
       ag_started_at = None, ag_completed_at = Some 2\<rparr>]"
  by (simp add: input_failed_def)

text \<open>
  Both branches.  In \<open>input_done\<close> the only record of \<^verbatim>\<open>input-agent\<close> is complete: the
  call inserts row 2.  In \<open>input_failed\<close> the record is a failed one: the call turns
  that row complete and inserts nothing.
\<close>

theorem mark_agent_complete_update_or_insert_witness:
  "sqlite_int 1 \<and>
   dependency_row input_done ''input-agent'' =
     Some \<lparr>d_id = 1, d_agent_name = ''input-agent'', d_depends_on = [], d_phase_number = 0\<rparr> \<and>
   open_rows input_done 1 ''input-agent'' = [] \<and>
   fst (mark_agent_complete input_done 3 1 ''input-agent'' (JObj [])) = Inr (Success 0) \<and>
   agents (snd (mark_agent_complete input_done 3 1 ''input-agent'' (JObj []))) =
     agents input_done @
     [\<lparr>ag_id = 2, ag_project_id = 1, ag_agent_name = ''input-agent'', ag_phase_number = 0,
       ag_status = AgComplete, ag_output_artifacts = Some (JObj []), ag_error_message = None,
       ag_started_at = None, ag_completed_at = Some 3\<rparr>] \<and>
   dependency_row input_failed ''input-agent'' =
     Some \<lparr>d_id = 1, d_agent_name = ''input-agent'', d_depends_on = [], d_phase_number = 0\<rparr> \<and>
   open_rows input_failed 1 ''input-agent'' =
     [\<lparr>ag_id = 1, ag_project_id = 1, ag_agent_name = ''input-agent'', ag_phase_number = 0,
       ag_status = AgFailed, ag_output_artifacts = None, ag_error_message = Some ''boom'',
       ag_started_at = None, ag_completed_at = Some 2\<rparr>] \<and>
   fst (mark_agent_complete input_failed 3 1 ''input-agent'' (JObj [])) = Inr (Success 0) \<and>
   agents (snd (mark_agent_complete input_failed 3 1 ''input-agent'' (JObj []))) =
     [\<lparr>ag_id = 1, ag_project_id = 1, ag_agent_name = ''input-agent'', ag_phase_number = 0,
       ag_status = AgComplete, ag_output_artifacts = Some (JObj []),
       ag_error_message = Some ''boom'', ag_started_at = None, ag_completed_at = Some 3\<rparr>]"
  using mark_agent_complete_update_or_insert
      [OF input_agent_dependency small_ids(1), of 3 "JObj []"]
    mark_agent_complete_update_or_insert
      [OF input_failed_dependency small_ids(1), of 3 "JObj []"]
    input_agent_dependency input_done_no_open_rows input_failed_dependency small_ids(1)
  by (simp add: input_done_agents input_failed_open_rows input_failed_agents next_id_def)

text \<open>
  The claim \<^bold>\<open>C2\<close> as stated fails: two successive calls of
  \<^verbatim>\<open>mark_agent_complete(1, "input-agent", {})\<close> on a new project both succeed and leave
  two complete rows, with ids 1 and 2.
\<close>

theorem mark_agent_complete_twice_counterexample:
  "fst (mark_agent_complete project_created 2 1 ''input-agent'' (JObj [])) = Inr (Success 0) \<and>
   fst (mark_agent_complete input_done 3 1 ''input-agent'' (JObj [])) = Inr (Success 0) \<and>
   length (complete_rows input_done 1 ''input-agent'') = 1 \<and>
   length (complete_rows input_done_twice 1 ''input-agent'') = 2 \<and>
   map ag_id (complete_rows input_done_twice 1 ''input-agent'') = [1, 2]"
  by (simp add: complete_rows_def input_done_twice_def input_done_def mark_agent_complete_def
      mark_agent_complete_body_def get_connection_def insert_agent_def touch_project_def
      log_event_def project_created_def seeded_def init_schema_def empty_db_def
      initialize_dependency_graph_def seed_rows_def next_id_def fetchone_def Let_def)

subsection \<open>The next feature\<close>

lemma set_order_insert: "set (order_insert le x ys) = insert x (set ys)"
  by (induction ys) auto

lemma set_order_by: "set (order_by le rows) = set rows"
  by (induction rows) (simp_all add: order_by_def set_order_insert)

lemma sorted_order_insert:
  assumes total: "\<And>a b. le a b \<or> le b a"
    and trans: "\<And>a b c. le a b \<Longrightarrow> le b c \<Longrightarrow> le a c"
  shows "sorted_wrt le ys \<Longrightarrow> sorted_wrt le (order_insert le x ys)"
proof (induction ys)
  case Nil
  then show ?case by simp
next
  case (Cons y ys)
  show ?case
  proof (cases "le x y")
    case True
    then have "\<forall>z \<in> set ys. le x z"
      using Cons.prems trans by auto
    with True Cons.prems show ?thesis by simp
  next
    case False
    then have "le y x" using total by blast
    with False Cons show ?thesis by (auto simp add: set_order_insert)
  qed
qed

lemma sorted_order_by:
  assumes "\<And>a b. le a b \<or> le b a"
    and "\<And>a b c. le a b \<Longrightarrow> le b c \<Longrightarrow> le a c"
  shows "sorted_wrt le (order_by le rows)"
proof (induction rows)
  case Nil
  then show ?case by (simp add: order_by_def)
next
  case (Cons r rows)
  have "sorted_wrt le (order_insert le r (order_by le rows))"
    using assms Cons.IH by (rule sorted_order_insert)
  then show ?case by (simp add: order_by_def)
qed

lemma order_by_first:
  assumes total: "\<And>a b. le a b \<or> le b a"
    and trans: "\<And>a b c. le a b \<Longrightarrow> le b c \<Longrightarrow> le a c"
    and first: "order_by le rows = y # ys"
    and mem: "x \<in> set rows"
  shows "le y x"
proof -
  have "sorted_wrt le (y # ys)"
    using sorted_order_by [of le rows, OF total trans] first by simp
  moreover have "x \<in> set (y # ys)"
    using mem set_order_by [of le rows] first by simp
  moreover have "le y y" using total by blast
  ultimately show ?thesis by auto
qed

lemma feature_le_total: "feature_le a b \<or> feature_le b a"
  by (auto simp add: feature_le_def rank_less_def split: option.splits)

lemma feature_le_trans: "feature_le a b \<Longrightarrow> feature_le b c \<Longrightarrow> feature_le a c"
  by (auto simp add: feature_le_def rank_less_def split: option.splits)

lemma feature_le_explicit:
  "feature_le f g \<Longrightarrow>
   \<not> rank_less (priority_rank (ft_priority g)) (priority_rank (ft_priority f)) \<and>
   (priority_rank (ft_priority g) = priority_rank (ft_priority f) \<longrightarrow> ft_id f \<le> ft_id g)"
  by (auto simp add: feature_le_def rank_less_def split: option.splits)

lemma feature_le_absolute:
  "feature_le f g \<Longrightarrow>
   (ft_priority g = None \<longrightarrow> ft_priority f = None) \<and>
   (ft_priority g = Some HIGH \<longrightarrow> ft_priority f = Some HIGH \<or> ft_priority f = None) \<and>
   (ft_priority g = Some MEDIUM \<longrightarrow> ft_priority f \<noteq> Some LOW) \<and>
   (ft_priority g = ft_priority f \<longrightarrow> ft_id f \<le> ft_id g)"
  by (auto simp add: feature_le_def rank_less_def priority_rank_def
      split: option.splits priority.splits)

text \<open>
  \<^bold>\<open>C6\<close>: for a project id in SQLite's range, \<^verbatim>\<open>get_next_feature\<close> replies
  \<^verbatim>\<open>has_next = False\<close> when the project has no pending feature.  Otherwise it returns
  one pending feature \<open>f\<close> of the project that comes first in priority and then in id.
  Against every pending feature \<open>g\<close> of the project: if \<open>g\<close> is HIGH then \<open>f\<close> is HIGH, if
  \<open>g\<close> is MEDIUM then \<open>f\<close> is not LOW, and if \<open>g\<close> has the priority of \<open>f\<close> then the id of \<open>f\<close>
  is at most that of \<open>g\<close>.  A feature stored without a priority (the column admits NULL)
  has the rank NULL, which SQLite sorts before 1: it is served before HIGH, which is the
  one exception to "if \<open>g\<close> is HIGH then \<open>f\<close> is HIGH".  The same order is stated with the
  ranks of the \<^verbatim>\<open>CASE\<close> expression (\<open>priority_rank\<close>: HIGH is 1, MEDIUM is 2, LOW is 3).
\<close>

theorem get_next_feature_priority_then_fifo:
  assumes "sqlite_int project_id"
  shows
  "(pending_features conn project_id = [] \<longrightarrow>
      get_next_feature conn project_id = Success None \<and>
      \<not> has_next (get_next_feature conn project_id)) \<and>
   (pending_features conn project_id \<noteq> [] \<longrightarrow>
      (\<exists>f. get_next_feature conn project_id = Success (Some f) \<and>
           has_next (get_next_feature conn project_id) \<and>
           f \<in> set (pending_features conn project_id) \<and>
           (\<forall>g \<in> set (pending_features conn project_id).
              \<not> rank_less (priority_rank (ft_priority g)) (priority_rank (ft_priority f)) \<and>
              (priority_rank (ft_priority g) = priority_rank (ft_priority f) \<longrightarrow>
                 ft_id f \<le> ft_id g) \<and>
              (ft_priority g = None \<longrightarrow> ft_priority f = None) \<and>
              (ft_priority g = Some HIGH \<longrightarrow>
                 ft_priority f = Some HIGH \<or> ft_priority f = None) \<and>
              (ft_priority g = Some MEDIUM \<longrightarrow> ft_priority f \<noteq> Some LOW) \<and>
              (ft_priority g = ft_priority f \<longrightarrow> ft_id f \<le> ft_id g))))"
proof -
  define pending where "pending = pending_features conn project_id"
  have reply: "get_next_feature conn project_id =
               Success (fetchone (take 1 (order_by feature_le pending)))"
    by (simp add: get_next_feature_def pending_def pending_features_def)
  show ?thesis
  proof (cases "order_by feature_le pending")
    case Nil
    then have "pending = []"
      using set_order_by [of feature_le pending] by simp
    with Nil show ?thesis
      unfolding pending_def [symmetric] reply by (simp add: fetchone_def has_next_def)
  next
    case (Cons f rest)
    then have mem: "f \<in> set pending"
      using set_order_by [of feature_le pending] by auto
    then have ne: "pending \<noteq> []" by auto
    have least: "\<forall>g \<in> set pending. feature_le f g"
      using order_by_first [of feature_le pending f rest] feature_le_total feature_le_trans Cons
      by blast
    have got: "get_next_feature conn project_id = Success (Some f)"
      using Cons by (simp add: reply fetchone_def)
    have "\<forall>g \<in> set pending.
              \<not> rank_less (priority_rank (ft_priority g)) (priority_rank (ft_priority f)) \<and>
              (priority_rank (ft_priority g) = priority_rank (ft_priority f) \<longrightarrow>
                 ft_id f \<le> ft_id g) \<and>
              (ft_priority g = None \<longrightarrow> ft_priority f = None) \<and>
              (ft_priority g = Some HIGH \<longrightarrow>
                 ft_priority f = Some HIGH \<or> ft_priority f = None) \<and>
              (ft_priority g = Some MEDIUM \<longrightarrow> ft_priority f \<noteq> Some LOW) \<and>
              (ft_priority g = ft_priority f \<longrightarrow> ft_id f \<le> ft_id g)"
    proof
      fix g
      assume "g \<in> set pending"
      then have le: "feature_le f g" using least by simp
      have ranks: "\<not> rank_less (priority_rank (ft_priority g)) (priority_rank (ft_priority f)) \<and>
              (priority_rank (ft_priority g) = priority_rank (ft_priority f) \<longrightarrow>
                 ft_id f \<le> ft_id g)"
        using le by (rule feature_le_explicit)
      have order: "(ft_priority g = None \<longrightarrow> ft_priority f = None) \<and>
              (ft_priority g = Some HIGH \<longrightarrow>
                 ft_priority f = Some HIGH \<or> ft_priority f = None) \<and>
              (ft_priority g = Some MEDIUM \<longrightarrow> ft_priority f \<noteq> Some LOW) \<and>
              (ft_priority g = ft_priority f \<longrightarrow> ft_id f \<le> ft_id g)"
        using le by (rule feature_le_absolute)
      show "\<not> rank_less (priority_rank (ft_priority g)) (priority_rank (ft_priority f)) \<and>
              (priority_rank (ft_priority g) = priority_rank (ft_priority f) \<longrightarrow>
                 ft_id f \<le> ft_id g) \<and>
              (ft_priority g = None \<longrightarrow> ft_priority f = None) \<and>
              (ft_priority g = Some HIGH \<longrightarrow>
                 ft_priority f = Some HIGH \<or> ft_priority f = None) \<and>
              (ft_priority g = Some MEDIUM \<longrightarrow> ft_priority f \<noteq> Some LOW) \<and>
              (ft_priority g = ft_priority f \<longrightarrow> ft_id f \<le> ft_id g)"
        using ranks order by (elim conjE) (intro conjI; assumption)
    qed
    then have best: "\<exists>f. get_next_feature conn project_id = Success (Some f) \<and>
           has_next (get_next_feature conn project_id) \<and>
           f \<in> set pending \<and>
           (\<forall>g \<in> set pending.
              \<not> rank_less (priority_rank (ft_priority g)) (priority_rank (ft_priority f)) \<and>
              (priority_rank (ft_priority g) = priority_rank (ft_priority f) \<longrightarrow>
                 ft_id f \<le> ft_id g) \<and>
              (ft_priority g = None \<longrightarrow> ft_priority f = None) \<and>
              (ft_priority g = Some HIGH \<longrightarrow>
                 ft_priority f = Some HIGH \<or> ft_priority f = None) \<and>
              (ft_priority g = Some MEDIUM \<longrightarrow> ft_priority f \<noteq> Some LOW) \<and>
              (ft_priority g = ft_priority f \<longrightarrow> ft_id f \<le> ft_id g))"
      using got mem by (intro exI [of _ f] conjI) (simp_all only: has_next_def reply.case option.case)
    have c1: "pending = [] \<longrightarrow>
      get_next_feature conn project_id = Success None \<and>
      \<not> has_next (get_next_feature conn project_id)"
      using ne by simp
    have c2: "pending \<noteq> [] \<longrightarrow> (\<exists>f. get_next_feature conn project_id = Success (Some f) \<and>
           has_next (get_next_feature conn project_id) \<and>
           f \<in> set pending \<and>
           (\<forall>g \<in> set pending.
              \<not> rank_less (priority_rank (ft_priority g)) (priority_rank (ft_priority f)) \<and>
              (priority_rank (ft_priority g) = priority_rank (ft_priority f) \<longrightarrow>
                 ft_id f \<le> ft_id g) \<and>
              (ft_priority g = None \<longrightarrow> ft_priority f = None) \<and>
              (ft_priority g = Some HIGH \<longrightarrow>
                 ft_priority f = Some HIGH \<or> ft_priority f = None) \<and>
              (ft_priority g = Some MEDIUM \<longrightarrow> ft_priority f \<noteq> Some LOW) \<and>
              (ft_priority g = ft_priority f \<longrightarrow> ft_id f \<le> ft_id g)))"
      by (intro impI) (rule best)
    show ?thesis
      unfolding pending_def [symmetric] using c1 c2 by (rule conjI)
  qed
qed

lemma backlog_priorities_pending:
  "pending_features backlog_priorities 1 =
     [new_feature 1 1 ''export'' LOW, new_feature 2 1 ''search'' MEDIUM,
      new_feature 3 1 ''login'' HIGH, new_feature 4 1 ''signup'' HIGH]"
  by (simp add: pending_features_def backlog_priorities_def new_feature_def)

lemma backlog_priorities_next:
  "get_next_feature backlog_priorities 1 = Success (Some (new_feature 3 1 ''login'' HIGH))"
  by (simp add: get_next_feature_def backlog_priorities_def new_feature_def order_by_def
      feature_le_def rank_less_def priority_rank_def fetchone_def)

lemma backlog_high_done_features:
  "features backlog_high_done =
     [new_feature 1 1 ''export'' LOW, new_feature 2 1 ''search'' MEDIUM,
      (new_feature 3 1 ''login'' HIGH)\<lparr>ft_status := FtComplete, ft_completed_at := Some 6\<rparr>,
      (new_feature 4 1 ''signup'' HIGH)\<lparr>ft_status := FtComplete, ft_completed_at := Some 6\<rparr>]"
  by (simp add: backlog_high_done_def features_mark_feature_complete backlog_priorities_def
      new_feature_def)

lemma backlog_high_done_pending:
  "pending_features backlog_high_done 1 =
     [new_feature 1 1 ''export'' LOW, new_feature 2 1 ''search'' MEDIUM]"
  by (simp add: pending_features_def backlog_high_done_features new_feature_def)

lemma backlog_high_done_next:
  "get_next_feature backlog_high_done 1 = Success (Some (new_feature 2 1 ''search'' MEDIUM))"
  by (simp add: get_next_feature_def backlog_high_done_features new_feature_def order_by_def
      feature_le_def rank_less_def priority_rank_def fetchone_def)

lemma backlog_priorities_other_project: "pending_features backlog_priorities 2 = []"
  by (simp add: pending_features_def backlog_priorities_def new_feature_def)

text \<open>
  In \<open>backlog_priorities\<close> project 1 has the pending features 1 (LOW), 2 (MEDIUM), 3 (HIGH)
  and 4 (HIGH): the next one is 3, the older of the two HIGH ones.  Once 3 and 4 are
  complete the next one is 2, MEDIUM before the older LOW.  Project 2 has no feature.
\<close>

theorem get_next_feature_priority_then_fifo_witness:
  "sqlite_int 1 \<and> sqlite_int 2 \<and>
   pending_features backlog_priorities 1 =
     [new_feature 1 1 ''export'' LOW, new_feature 2 1 ''search'' MEDIUM,
      new_feature 3 1 ''login'' HIGH, new_feature 4 1 ''signup'' HIGH] \<and>
   get_next_feature backlog_priorities 1 = Success (Some (new_feature 3 1 ''login'' HIGH)) \<and>
   pending_features backlog_high_done 1 =
     [new_feature 1 1 ''export'' LOW, new_feature 2 1 ''search'' MEDIUM] \<and>
   get_next_feature backlog_high_done 1 = Success (Some (new_feature 2 1 ''search'' MEDIUM)) \<and>
   pending_features backlog_priorities 2 = [] \<and>
   get_next_feature backlog_priorities 2 = Success None \<and>
   \<not> has_next (get_next_feature backlog_priorities 2)"
proof -
  note none = get_next_feature_priority_then_fifo [OF small_ids(2), of backlog_priorities,
      THEN conjunct1]
  note first = get_next_feature_priority_then_fifo [OF small_ids(1), of backlog_priorities,
      THEN conjunct2]
  note second = get_next_feature_priority_then_fifo [OF small_ids(1), of backlog_high_done,
      THEN conjunct2]
  have a: "get_next_feature backlog_priorities 2 = Success None \<and>
           \<not> has_next (get_next_feature backlog_priorities 2)"
    using none backlog_priorities_other_project by (simp add: has_next_def)
  have ne1: "pending_features backlog_priorities 1 \<noteq> []"
    by (simp add: backlog_priorities_pending)
  have ne2: "pending_features backlog_high_done 1 \<noteq> []"
    by (simp add: backlog_high_done_pending)
  have b: "\<exists>f. get_next_feature backlog_priorities 1 = Success (Some f)"
    using first [THEN mp, OF ne1] by blast
  have c: "\<exists>f. get_next_feature backlog_high_done 1 = Success (Some f)"
    using second [THEN mp, OF ne2] by blast
  show ?thesis
    using a b c backlog_priorities_pending backlog_priorities_next backlog_high_done_pending
      backlog_high_done_next backlog_priorities_other_project small_ids(1) small_ids(2)
    by (simp add: has_next_def)
qed

subsection \<open>The next agents\<close>

lemma seeded_dependencies:
  "dependencies seeded =
     [\<lparr>d_id = 1, d_agent_name = ''input-agent'', d_depends_on = [], d_phase_number = 0\<rparr>,
      \<lparr>d_id = 2, d_agent_name = ''requirements-analyst'', d_depends_on = [''input-agent''],
        d_phase_number = 1\<rparr>,
      \<lparr>d_id = 3, d_agent_name = ''ui-ux-designer'', d_depends_on = [''input-agent''],
        d_phase_number = 1\<rparr>,
      \<lparr>d_id = 4, d_agent_name = ''database-architect'',
        d_depends_on = [''requirements-analyst'', ''ui-ux-designer''], d_phase_number = 2\<rparr>,
      \<lparr>d_id = 5, d_agent_name = ''api-designer'',
        d_depends_on = [''requirements-analyst'', ''ui-ux-designer''], d_phase_number = 2\<rparr>,
      \<lparr>d_id = 6, d_agent_name = ''integration-specialist'',
        d_depends_on = [''requirements-analyst'', ''ui-ux-designer''], d_phase_number = 2\<rparr>,
      \<lparr>d_id = 7, d_agent_name = ''backend-developer'',
        d_depends_on = [''database-architect'', ''api-designer'', ''integration-specialist''],
        d_phase_number = 3\<rparr>,
      \<lparr>d_id = 8, d_agent_name = ''frontend-developer'',
        d_depends_on = [''backend-developer'', ''ui-ux-designer''], d_phase_number = 3\<rparr>,
      \<lparr>d_id = 9, d_agent_name = ''backend-developer-feature'',
        d_depends_on = [''backend-developer''], d_phase_number = 4\<rparr>,
      \<lparr>d_id = 10, d_agent_name = ''frontend-developer-feature'',
        d_depends_on = [''backend-developer-feature''], d_phase_number = 4\<rparr>,
      \<lparr>d_id = 11, d_agent_name = ''qa-engineer-feature'',
        d_depends_on = [''backend-developer-feature'', ''frontend-developer-feature''],
        d_phase_number = 4\<rparr>,
      \<lparr>d_id = 12, d_agent_name = ''qa-engineer'', d_depends_on = [''qa-engineer-feature''],
        d_phase_number = 5\<rparr>,
      \<lparr>d_id = 13, d_agent_name = ''security-auditor'', d_depends_on = [''qa-engineer-feature''],
        d_phase_number = 5\<rparr>,
      \<lparr>d_id = 14, d_agent_name = ''devops-engineer'', d_depends_on = [''qa-engineer-feature''],
        d_phase_number = 5\<rparr>,
      \<lparr>d_id = 15, d_agent_name = ''devops-engineer-staging'',
        d_depends_on = [''qa-engineer'', ''security-auditor'', ''devops-engineer''],
        d_phase_number = 6\<rparr>,
      \<lparr>d_id = 16, d_agent_name = ''devops-engineer-production'',
        d_depends_on = [''devops-engineer-staging''], d_phase_number = 6\<rparr>,
      \<lparr>d_id = 17, d_agent_name = ''devops-engineer-appstore'',
        d_depends_on = [''devops-engineer-production''], d_phase_number = 6\<rparr>]"
  by (simp add: seeded_def init_schema_def empty_db_def initialize_dependency_graph_def
      seed_rows_def next_id_def)

lemma seeded_order:
  "map d_agent_name (order_by dependency_le (dependencies seeded)) =
     [''input-agent'', ''requirements-analyst'', ''ui-ux-designer'', ''api-designer'',
      ''database-architect'', ''integration-specialist'', ''backend-developer'',
      ''frontend-developer'', ''backend-developer-feature'', ''frontend-developer-feature'',
      ''qa-engineer-feature'', ''devops-engineer'', ''qa-engineer'', ''security-auditor'',
      ''devops-engineer-appstore'', ''devops-engineer-production'', ''devops-engineer-staging'']"
  by (simp add: seeded_dependencies order_by_def dependency_le_def)


lemma seeded_agents: "agents seeded = []"
  by (simp add: seeded_def init_schema_def empty_db_def initialize_dependency_graph_def)

lemma analyst_done_early_dependencies: "dependencies analyst_done_early = dependencies seeded"
  by (simp add: analyst_done_early_def mark_agent_complete_def mark_agent_complete_body_def
      get_connection_def insert_agent_def touch_project_def log_event_def project_created_def
      Let_def split: option.splits)

lemma analyst_done_early_agents:
  "agents analyst_done_early =
     [\<lparr>ag_id = 1, ag_project_id = 1, ag_agent_name = ''requirements-analyst'',
       ag_phase_number = 1, ag_status = AgComplete, ag_output_artifacts = Some (JObj []),
       ag_error_message = None, ag_started_at = None, ag_completed_at = Some 2\<rparr>]"
  by (simp add: analyst_done_early_def mark_agent_complete_def mark_agent_complete_body_def
      get_connection_def insert_agent_def touch_project_def log_event_def project_created_def
      seeded_dependencies seeded_agents next_id_def fetchone_def Let_def)

lemma analyst_done_early_projects:
  "projects analyst_done_early =
     [\<lparr>p_id = 1, p_name = ''P'', p_description = ''demo'', p_tech_stack = ''default'',
       p_current_phase = 0, p_status = Active, p_created_at = 1, p_updated_at = 2\<rparr>]"
  by (simp add: analyst_done_early_def mark_agent_complete_def mark_agent_complete_body_def
      get_connection_def insert_agent_def touch_project_def log_event_def project_created_def
      seeded_dependencies seeded_agents next_id_def fetchone_def Let_def)

text \<open>
  \<^bold>\<open>C5\<close> says that an agent with a complete run record is in neither list of
  \<^verbatim>\<open>get_next_agents\<close>.  The code asks for a complete record only in the branch of the
  agents that may start; the branch of the blocked agents does not ask.  On a new
  project, \<^verbatim>\<open>mark_agent_complete(1, "requirements-analyst", {})\<close> succeeds (completion
  does not check readiness), and \<^verbatim>\<open>get_next_agents(1)\<close> then lists the completed
  \<^verbatim>\<open>requirements-analyst\<close> first among the blocked agents, its prerequisite
  \<^verbatim>\<open>input-agent\<close> being incomplete.
\<close>

theorem get_next_agents_blocks_completed_agent:
  "fst (mark_agent_complete project_created 2 1 ''requirements-analyst'' (JObj [])) =
     Inr (Success 1) \<and>
   has_complete_record analyst_done_early 1 ''requirements-analyst'' \<and>
   get_next_agents analyst_done_early 1 =
     Success
       \<lparr>ready_agents = [\<lparr>ra_name = ''input-agent'', ra_phase = 0\<rparr>],
        blocked_agents =
          [\<lparr>ba_name = ''requirements-analyst'', ba_phase = 1, ba_missing = [''input-agent'']\<rparr>,
           \<lparr>ba_name = ''ui-ux-designer'', ba_phase = 1, ba_missing = [''input-agent'']\<rparr>,
           \<lparr>ba_name = ''api-designer'', ba_phase = 2, ba_missing = [''ui-ux-designer'']\<rparr>,
           \<lparr>ba_name = ''database-architect'', ba_phase = 2, ba_missing = [''ui-ux-designer'']\<rparr>,
           \<lparr>ba_name = ''integration-specialist'', ba_phase = 2,
             ba_missing = [''ui-ux-designer'']\<rparr>]\<rparr>"
proof -
  have a: "fst (mark_agent_complete project_created 2 1 ''requirements-analyst'' (JObj [])) =
           Inr (Success 1)"
    by (simp add: mark_agent_complete_def mark_agent_complete_body_def
      get_connection_def insert_agent_def project_created_def
      seeded_dependencies seeded_agents fetchone_def Let_def)
  have b: "has_complete_record analyst_done_early 1 ''requirements-analyst''"
    by (simp add: has_complete_record_def complete_rows_def analyst_done_early_agents)
  have c: "get_next_agents analyst_done_early 1 =
     Success
       \<lparr>ready_agents = [\<lparr>ra_name = ''input-agent'', ra_phase = 0\<rparr>],
        blocked_agents =
          [\<lparr>ba_name = ''requirements-analyst'', ba_phase = 1, ba_missing = [''input-agent'']\<rparr>,
           \<lparr>ba_name = ''ui-ux-designer'', ba_phase = 1, ba_missing = [''input-agent'']\<rparr>,
           \<lparr>ba_name = ''api-designer'', ba_phase = 2, ba_missing = [''ui-ux-designer'']\<rparr>,
           \<lparr>ba_name = ''database-architect'', ba_phase = 2, ba_missing = [''ui-ux-designer'']\<rparr>,
           \<lparr>ba_name = ''integration-specialist'', ba_phase = 2,
             ba_missing = [''ui-ux-designer'']\<rparr>]\<rparr>"
    unfolding get_next_agents_def analyst_done_early_dependencies seeded_order
    by (simp add: can_start_agent_def analyst_done_early_dependencies seeded_dependencies
        analyst_done_early_agents analyst_done_early_projects fetchone_def Let_def)
  show ?thesis using a b c by simp
qed

end
